theory Spec2Isabelle
  imports Main
begin

section \<open>The RiskGuard agent executor\<close>

text \<open>
  A shallow embedding of \<^verbatim>\<open>RiskGuardAgentExecutor.execute\<close>
  (\<^verbatim>\<open>src/riskguard/agent_executor.py\<close>). The executor receives an A2A request,
  makes sure an ADK session exists, runs the ADK runner, scans the runner's events for the
  \<^verbatim>\<open>risk_check_result\<close> function response and enqueues one reply message.

  The session service, the runner and the event queue are collaborators of the executor.
  Each of their operations may raise, an instance of \<^verbatim>\<open>Exception\<close> or not, and every
  call the executor makes to the session service and the runner is written to a log
  carried in the state.
\<close>

subsection \<open>Values\<close>

text \<open>
  The content of a data part and of a function response is JSON-like data. Floats are
  left out: no branch of the executor looks inside the values.
\<close>

datatype json =
    JNull
  | JBool bool
  | JInt int
  | JStr string
  | JList "json list"
  | JDict "(string \<times> json) list"

type_synonym pydict = "(string \<times> json) list"

text \<open>\<^verbatim>\<open>k in d\<close> on a dict.\<close>

definition has_key :: "string \<Rightarrow> pydict \<Rightarrow> bool" where
  "has_key k d = (map_of d k \<noteq> None)"

text \<open>
  What a Python call can raise: the instances of \<^verbatim>\<open>BaseException\<close>.
  \<open>ValueError\<close> and \<open>ConnectionError\<close> are the two the executor raises itself and
  \<open>OtherException\<close> stands for any other instance of \<^verbatim>\<open>Exception\<close>.
  \<open>CancelledError\<close> (\<^verbatim>\<open>asyncio.CancelledError\<close>, raised at an \<^verbatim>\<open>await\<close> when the task is
  cancelled) and \<open>OtherBaseException\<close> are not instances of \<^verbatim>\<open>Exception\<close>, so that
  \<^verbatim>\<open>except Exception\<close> does not catch them.
\<close>

datatype py_exception =
    ValueError string
  | ConnectionError string
  | OtherException string
  | CancelledError
  | OtherBaseException string

text \<open>\<^verbatim>\<open>isinstance(e, Exception)\<close>.\<close>

fun is_exception :: "py_exception \<Rightarrow> bool" where
  "is_exception (ValueError s) = True"
| "is_exception (ConnectionError s) = True"
| "is_exception (OtherException s) = True"
| "is_exception CancelledError = False"
| "is_exception (OtherBaseException s) = False"

text \<open>\<^verbatim>\<open>str(e)\<close>.\<close>

fun exception_str :: "py_exception \<Rightarrow> string" where
  "exception_str (ValueError s) = s"
| "exception_str (ConnectionError s) = s"
| "exception_str (OtherException s) = s"
| "exception_str CancelledError = []"
| "exception_str (OtherBaseException s) = s"

subsection \<open>A2A messages, request context and event queue\<close>

datatype part_root =
    TextPart string
  | FilePart string
  | DataPart pydict

datatype role = Agent | User

text \<open>The random \<^verbatim>\<open>message_id\<close> of a message is left out.\<close>

record a2a_message =
  role :: role
  parts :: "part_root list"
  msg_context_id :: "string option"
  msg_task_id :: "string option"

record request_context =
  context_id :: "string option"
  task_id :: "string option"
  message :: "a2a_message option"

text \<open>
  The event queue is the sink the executor writes to. \<open>enqueued\<close> holds the messages it
  has accepted and \<open>closed\<close> counts the calls of \<open>close\<close>. What the queue does when it is
  called is part of the queue: \<open>enqueue_outcomes\<close> says for the coming calls of
  \<open>enqueue_event\<close>, in order, whether the call raises (and what) or accepts the message,
  a call beyond the list accepting it; \<open>close_outcome\<close> says what \<open>close\<close> raises, if
  anything. A call of \<open>enqueue_event\<close> that raises enqueues nothing.
\<close>

record event_queue =
  enqueued :: "a2a_message list"
  closed :: nat
  enqueue_outcomes :: "py_exception option list"
  close_outcome :: "py_exception option"

definition enqueue_event ::
  "a2a_message \<Rightarrow> event_queue \<Rightarrow> (py_exception + unit) \<times> event_queue" where
  "enqueue_event m q =
     (case enqueue_outcomes q of
        [] \<Rightarrow> (Inr (), q\<lparr>enqueued := enqueued q @ [m]\<rparr>)
      | None # outcomes \<Rightarrow>
          (Inr (), q\<lparr>enqueued := enqueued q @ [m], enqueue_outcomes := outcomes\<rparr>)
      | Some e # outcomes \<Rightarrow> (Inl e, q\<lparr>enqueue_outcomes := outcomes\<rparr>))"

definition close :: "event_queue \<Rightarrow> (py_exception + unit) \<times> event_queue" where
  "close q =
     (case close_outcome q of
        None \<Rightarrow> (Inr (), q\<lparr>closed := Suc (closed q)\<rparr>)
      | Some e \<Rightarrow> (Inl e, q\<lparr>closed := Suc (closed q)\<rparr>))"

definition new_agent_parts_message ::
  "part_root list \<Rightarrow> string option \<Rightarrow> string option \<Rightarrow> a2a_message" where
  "new_agent_parts_message ps cid tid =
     \<lparr>role = Agent, parts = ps, msg_context_id = cid, msg_task_id = tid\<rparr>"

subsection \<open>ADK sessions, events and the runner\<close>

record session =
  sess_id :: string
  sess_app_name :: string
  sess_user_id :: string
  sess_state :: pydict

record fn_response =
  fr_name :: "string option"
  fr_response :: "json option"

record genai_part =
  part_text :: "string option"
  function_response :: "fn_response option"

record genai_content =
  content_parts :: "genai_part list option"

record adk_event =
  content :: "genai_content option"

text \<open>
  What the asynchronous generator returned by \<^verbatim>\<open>run_async\<close> does when it is
  iterated: it ends, yields an event and goes on, or raises.
\<close>

datatype event_stream =
    StopAsyncIteration
  | Yield adk_event event_stream
  | Raise py_exception

text \<open>The calls the executor makes to its collaborators, and the events it pulls.\<close>

datatype call =
    GetSession string string string
  | CreateSession string string string pydict
  | RunAsync string string string
  | Consumed adk_event

record 's world =
  store :: 's
  calls :: "call list"

text \<open>
  The session service and the runner. \<open>get_session\<close> and \<open>create_session\<close> take the
  application name, the user id and the session id, and return a session, \<^verbatim>\<open>None\<close> or
  what they raise, with the new state of the store. \<open>run_async\<close> takes the user id, the
  session id and the text of the new message. \<open>json_dumps\<close> is \<^verbatim>\<open>json.dumps\<close>.
\<close>

record 's environment =
  get_session :: "'s \<Rightarrow> string \<Rightarrow> string \<Rightarrow> string \<Rightarrow> (py_exception + session option) \<times> 's"
  create_session ::
    "'s \<Rightarrow> string \<Rightarrow> string \<Rightarrow> string \<Rightarrow> pydict \<Rightarrow> (py_exception + session option) \<times> 's"
  run_async :: "'s \<Rightarrow> string \<Rightarrow> string \<Rightarrow> string \<Rightarrow> event_stream"
  json_dumps :: "pydict \<Rightarrow> string"

subsection \<open>The executor\<close>

text \<open>\<^verbatim>\<open>Runner(app_name="riskguard_adk_runner", ...)\<close> in \<^verbatim>\<open>__init__\<close>.\<close>

definition app_name :: string where
  "app_name = ''riskguard_adk_runner''"

definition a2a_user :: string where
  "a2a_user = ''a2a_user''"

definition quote :: string where
  "quote = [CHR 0x27]"

text \<open>Lines 39 to 43: the data of the first part, when that part is a data part.\<close>

definition agent_input_data :: "request_context \<Rightarrow> pydict option" where
  "agent_input_data ctx =
     (case message ctx of
        None \<Rightarrow> None
      | Some m \<Rightarrow>
          (case parts m of
             [] \<Rightarrow> None
           | p # _ \<Rightarrow> (case p of DataPart d \<Rightarrow> Some d | _ \<Rightarrow> None)))"

text \<open>
  Lines 67 to 77: \<open>get_session\<close>. The handler \<^verbatim>\<open>except Exception\<close> turns an instance of
  \<^verbatim>\<open>Exception\<close> into \<^verbatim>\<open>None\<close>; anything else the call raises goes on.
\<close>

definition try_get_session ::
  "'s environment \<Rightarrow> string \<Rightarrow> 's world \<Rightarrow> (py_exception + session option) \<times> 's world" where
  "try_get_session env sid w =
     (case get_session env (store w) app_name a2a_user sid of
        (r, s') \<Rightarrow>
          (case r of
             Inl e \<Rightarrow> if is_exception e then Inr None else Inl e
           | Inr so \<Rightarrow> Inr so,
           w\<lparr>store := s', calls := calls w @ [GetSession app_name a2a_user sid]\<rparr>))"

text \<open>Lines 83 to 102: \<open>create_session\<close> with an empty state, under the same handler.\<close>

definition try_create_session ::
  "'s environment \<Rightarrow> string \<Rightarrow> 's world \<Rightarrow> (py_exception + session option) \<times> 's world" where
  "try_create_session env sid w =
     (case create_session env (store w) app_name a2a_user sid [] of
        (r, s') \<Rightarrow>
          (case r of
             Inl e \<Rightarrow> if is_exception e then Inr None else Inl e
           | Inr so \<Rightarrow> Inr so,
           w\<lparr>store := s', calls := calls w @ [CreateSession app_name a2a_user sid []]\<rparr>))"

text \<open>Lines 65 to 110: the session of the request, found or created.\<close>

definition ensure_session ::
  "'s environment \<Rightarrow> string option \<Rightarrow> 's world \<Rightarrow> (py_exception + session option) \<times> 's world"
  where
  "ensure_session env session_id_for_adk w =
     (case session_id_for_adk of
        None \<Rightarrow> (Inr None, w)
      | Some sid \<Rightarrow>
          if sid = [] then (Inr None, w)
          else
            (case try_get_session env sid w of
               (Inl e, w1) \<Rightarrow> (Inl e, w1)
             | (Inr (Some s), w1) \<Rightarrow> (Inr (Some s), w1)
             | (Inr None, w1) \<Rightarrow> try_create_session env sid w1))"

text \<open>
  Lines 131 to 138: the test on one part. Every part has the attribute
  \<^verbatim>\<open>function_response\<close>, so \<^verbatim>\<open>hasattr\<close> holds; the response is adopted when it is a dict.
\<close>

definition part_verdict :: "genai_part \<Rightarrow> pydict option" where
  "part_verdict p =
     (case function_response p of
        None \<Rightarrow> None
      | Some fr \<Rightarrow>
          if fr_name fr = Some ''risk_check_result''
          then (case fr_response fr of Some (JDict response_data) \<Rightarrow> Some response_data | _ \<Rightarrow> None)
          else None)"

text \<open>Lines 129 to 138: the verdict an event carries, if any. Only \<^verbatim>\<open>parts[0]\<close> is read.\<close>

definition event_verdict :: "adk_event \<Rightarrow> pydict option" where
  "event_verdict ev =
     (case content ev of
        None \<Rightarrow> None
      | Some c \<Rightarrow>
          (case content_parts c of
             None \<Rightarrow> None
           | Some [] \<Rightarrow> None
           | Some (first_part # _) \<Rightarrow> part_verdict first_part))"

text \<open>
  Lines 124 to 139: the loop over the events. It returns the verdict, or what the
  generator raised, and the events it has pulled.
\<close>

fun consume_events :: "pydict \<Rightarrow> event_stream \<Rightarrow> (py_exception + pydict) \<times> adk_event list" where
  "consume_events risk_result_dict StopAsyncIteration = (Inr risk_result_dict, [])"
| "consume_events risk_result_dict (Raise e) = (Inl e, [])"
| "consume_events risk_result_dict (Yield ev rest) =
     (case event_verdict ev of
        Some response_data \<Rightarrow> (Inr response_data, [ev])
      | None \<Rightarrow>
          (case consume_events risk_result_dict rest of (r, evs) \<Rightarrow> (r, ev # evs)))"

definition default_result :: pydict where
  "default_result =
     [(''approved'', JBool False), (''reason'', JStr ''Agent did not produce a result.'')]"

definition error_result :: "py_exception \<Rightarrow> pydict" where
  "error_result e =
     [(''approved'', JBool False),
      (''reason'', JStr (''An internal error occurred: '' @ exception_str e))]"

definition missing_context_error :: py_exception where
  "missing_context_error = ValueError ''Context ID is missing, cannot execute.''"

definition missing_payload_error :: py_exception where
  "missing_payload_error =
     ValueError ''Missing 'trade_proposal' or 'portfolio_state' in data payload''"

definition session_error :: "string \<Rightarrow> py_exception" where
  "session_error sid =
     ConnectionError (''Failed to establish ADK session. session_id was '' @ quote @ sid
       @ quote @ ''.'')"

text \<open>
  Lines 54 to 147: the rest of the \<^verbatim>\<open>try\<close> block once the request has passed the
  two checks, \<open>cid\<close> being the context id and \<open>data\<close> the payload.
\<close>

definition run_agent ::
  "'s environment \<Rightarrow> request_context \<Rightarrow> string \<Rightarrow> pydict \<Rightarrow> 's world \<Rightarrow> event_queue \<Rightarrow>
     (py_exception + unit) \<times> 's world \<times> event_queue" where
  "run_agent env ctx cid data w q =
     (let agent_input_json = json_dumps env data in
      (case ensure_session env (context_id ctx) w of
         (Inl e, w1) \<Rightarrow> (Inl e, w1, q)
       | (Inr None, w1) \<Rightarrow> (Inl (session_error cid), w1, q)
       | (Inr (Some s), w1) \<Rightarrow>
           (let events = run_async env (store w1) a2a_user cid agent_input_json;
                w2 = w1\<lparr>calls := calls w1 @ [RunAsync a2a_user cid agent_input_json]\<rparr>
            in
            (case consume_events default_result events of
               (r, evs) \<Rightarrow>
                 (let w3 = w2\<lparr>calls := calls w2 @ map Consumed evs\<rparr> in
                  (case r of
                     Inl e \<Rightarrow> (Inl e, w3, q)
                   | Inr risk_result_dict \<Rightarrow>
                       (case enqueue_event
                               (new_agent_parts_message [DataPart risk_result_dict]
                                  (context_id ctx) (task_id ctx)) q of
                          (r', q') \<Rightarrow> (r', w3, q'))))))))"

text \<open>Lines 36 to 147: the body of the \<^verbatim>\<open>try\<close>.\<close>

definition execute_try ::
  "'s environment \<Rightarrow> request_context \<Rightarrow> 's world \<Rightarrow> event_queue \<Rightarrow>
     (py_exception + unit) \<times> 's world \<times> event_queue" where
  "execute_try env ctx w q =
     (case context_id ctx of
        None \<Rightarrow> (Inl missing_context_error, w, q)
      | Some cid \<Rightarrow>
          if cid = [] then (Inl missing_context_error, w, q)
          else
            (case agent_input_data ctx of
               None \<Rightarrow> (Inl missing_payload_error, w, q)
             | Some data \<Rightarrow>
                 if data = [] \<or> \<not> has_key ''trade_proposal'' data
                    \<or> \<not> has_key ''portfolio_state'' data
                 then (Inl missing_payload_error, w, q)
                 else run_agent env ctx cid data w q))"

text \<open>
  Lines 167 to 169: the \<^verbatim>\<open>finally\<close> block. \<open>pending\<close> is the exception on its way out
  of the method, if any; when \<open>close\<close> raises, its exception leaves instead.
\<close>

definition finally_close ::
  "py_exception option \<Rightarrow> 's world \<Rightarrow> event_queue \<Rightarrow>
     py_exception option \<times> 's world \<times> event_queue" where
  "finally_close pending w q =
     (case close q of
        (Inl e, q') \<Rightarrow> (Some e, w, q')
      | (Inr _, q') \<Rightarrow> (pending, w, q'))"

text \<open>
  Lines 31 to 169: \<open>execute\<close>. The first component of the result is the exception that
  leaves the method, if any. The handler of line 149 catches the instances of
  \<^verbatim>\<open>Exception\<close> and enqueues the error message, outside any \<^verbatim>\<open>try\<close> of its own; what
  is not an instance of \<^verbatim>\<open>Exception\<close> passes it by.
\<close>

definition execute ::
  "'s environment \<Rightarrow> request_context \<Rightarrow> 's world \<Rightarrow> event_queue \<Rightarrow>
     py_exception option \<times> 's world \<times> event_queue" where
  "execute env ctx w q =
     (case execute_try env ctx w q of
        (Inr _, w', q') \<Rightarrow> finally_close None w' q'
      | (Inl e, w', q') \<Rightarrow>
          if is_exception e then
            (case enqueue_event
                    (new_agent_parts_message [DataPart (error_result e)]
                       (context_id ctx) (task_id ctx)) q' of
               (Inl e', q'') \<Rightarrow> finally_close (Some e') w' q''
             | (Inr _, q'') \<Rightarrow> finally_close None w' q'')
          else finally_close (Some e) w' q')"

subsection \<open>An in-memory session service\<close>

text \<open>
  Modelled from the spec: the session store the runner is built with
  (\<^verbatim>\<open>InMemorySessionService\<close>, a library class) is a keyed mapping from the identity
  (application name, user id, session id) of a session to the session. \<open>get\<close> looks the key
  up and finds a session or nothing; \<open>create\<close> stores a session with the given initial
  state under the key and returns it.
\<close>

type_synonym memory_store = "string \<times> string \<times> string \<Rightarrow> session option"

definition in_memory_get_session ::
  "memory_store \<Rightarrow> string \<Rightarrow> string \<Rightarrow> string \<Rightarrow> (py_exception + session option) \<times> memory_store"
  where
  "in_memory_get_session st app user sid = (Inr (st (app, user, sid)), st)"

definition in_memory_create_session ::
  "memory_store \<Rightarrow> string \<Rightarrow> string \<Rightarrow> string \<Rightarrow> pydict \<Rightarrow>
     (py_exception + session option) \<times> memory_store" where
  "in_memory_create_session st app user sid state =
     (let s = \<lparr>sess_id = sid, sess_app_name = app, sess_user_id = user, sess_state = state\<rparr>
      in (Inr (Some s), st((app, user, sid) \<mapsto> s)))"

definition in_memory_environment ::
  "(memory_store \<Rightarrow> string \<Rightarrow> string \<Rightarrow> string \<Rightarrow> event_stream) \<Rightarrow> (pydict \<Rightarrow> string) \<Rightarrow>
     memory_store environment" where
  "in_memory_environment run dumps =
     \<lparr>get_session = in_memory_get_session, create_session = in_memory_create_session,
      run_async = run, json_dumps = dumps\<rparr>"

definition empty_world :: "memory_store world" where
  "empty_world = \<lparr>store = (\<lambda>k. None), calls = []\<rparr>"

subsection \<open>Notions used to state the properties\<close>

text \<open>
  These follow the words of the claims, not the code. A part carries the result \<open>d\<close>
  when it holds a function response whose name is \<open>risk_check_result\<close> and whose response
  is the mapping \<open>d\<close>.
\<close>

definition carries :: "genai_part \<Rightarrow> pydict \<Rightarrow> bool" where
  "carries p d =
     (function_response p = Some \<lparr>fr_name = Some ''risk_check_result'', fr_response = Some (JDict d)\<rparr>)"

text \<open>The parts of an event: those of its content, none when the content or its list is absent.\<close>

definition event_parts :: "adk_event \<Rightarrow> genai_part list" where
  "event_parts ev =
     (case content ev of
        None \<Rightarrow> []
      | Some c \<Rightarrow> (case content_parts c of None \<Rightarrow> [] | Some ps \<Rightarrow> ps))"

text \<open>An event carries a result in some part, or in its first part.\<close>

definition carries_somewhere :: "adk_event \<Rightarrow> pydict \<Rightarrow> bool" where
  "carries_somewhere ev d = (\<exists>p \<in> set (event_parts ev). carries p d)"

definition carries_first :: "adk_event \<Rightarrow> pydict \<Rightarrow> bool" where
  "carries_first ev d = (case event_parts ev of [] \<Rightarrow> False | p # _ \<Rightarrow> carries p d)"

text \<open>A stream that yields the events of a list and then goes on as another stream.\<close>

fun yield_all :: "adk_event list \<Rightarrow> event_stream \<Rightarrow> event_stream" where
  "yield_all [] rest = rest"
| "yield_all (ev # evs) rest = Yield ev (yield_all evs rest)"

text \<open>A stream that raises, if it does, an instance of \<^verbatim>\<open>Exception\<close>.\<close>

fun raises_exceptions_only :: "event_stream \<Rightarrow> bool" where
  "raises_exceptions_only StopAsyncIteration = True"
| "raises_exceptions_only (Yield ev rest) = raises_exceptions_only rest"
| "raises_exceptions_only (Raise e) = is_exception e"

text \<open>A queue none of whose operations raises.\<close>

definition reliable :: "event_queue \<Rightarrow> bool" where
  "reliable q = (enqueue_outcomes q = [] \<and> close_outcome q = None)"

text \<open>The calls to the session store among the calls of a log.\<close>

fun is_store_call :: "call \<Rightarrow> bool" where
  "is_store_call (GetSession a u s) = True"
| "is_store_call (CreateSession a u s st) = True"
| "is_store_call c = False"

fun is_create_call :: "call \<Rightarrow> bool" where
  "is_create_call (CreateSession a u s st) = True"
| "is_create_call c = False"

text \<open>
  The parts of the result of \<open>execute\<close>: the exception that leaves it, the state of the
  collaborators with the log, and the queue.
\<close>

definition escaped :: "'x \<times> 'w \<times> 'q \<Rightarrow> 'x" where
  "escaped r = fst r"

definition world_after :: "'x \<times> 'w \<times> 'q \<Rightarrow> 'w" where
  "world_after r = fst (snd r)"

definition queue_after :: "'x \<times> 'w \<times> 'q \<Rightarrow> 'q" where
  "queue_after r = snd (snd r)"

subsection \<open>Sample requests, runners and queues\<close>

text \<open>
  The request of the scenario of the specification: context \<open>s1\<close>, task \<open>t1\<close>, a payload
  with both keys. The sample runner yields a text event, then the result
  \<open>{approved: true, reason: "ok"}\<close>, then one more event.
\<close>

definition demo_payload :: pydict where
  "demo_payload =
     [(''trade_proposal'', JDict [(''ticker'', JStr ''ABC''), (''quantity'', JInt 10)]),
      (''portfolio_state'', JDict [(''cash'', JInt 1000)])]"

definition demo_request :: request_context where
  "demo_request =
     \<lparr>context_id = Some ''s1'', task_id = Some ''t1'',
      message = Some \<lparr>role = User, parts = [DataPart demo_payload],
                       msg_context_id = Some ''s1'', msg_task_id = Some ''t1''\<rparr>\<rparr>"

definition response_part :: "string \<Rightarrow> json \<Rightarrow> genai_part" where
  "response_part name resp =
     \<lparr>part_text = None,
      function_response = Some \<lparr>fr_name = Some name, fr_response = Some resp\<rparr>\<rparr>"

definition result_part :: "pydict \<Rightarrow> genai_part" where
  "result_part d = response_part ''risk_check_result'' (JDict d)"

definition text_part :: "string \<Rightarrow> genai_part" where
  "text_part t = \<lparr>part_text = Some t, function_response = None\<rparr>"

definition event_of_parts :: "genai_part list \<Rightarrow> adk_event" where
  "event_of_parts ps = \<lparr>content = Some \<lparr>content_parts = Some ps\<rparr>\<rparr>"

definition ok_result :: pydict where
  "ok_result = [(''approved'', JBool True), (''reason'', JStr ''ok'')]"

definition denied_result :: pydict where
  "denied_result = [(''approved'', JBool False), (''reason'', JStr ''exceeds exposure limit'')]"

definition demo_run :: "memory_store \<Rightarrow> string \<Rightarrow> string \<Rightarrow> string \<Rightarrow> event_stream" where
  "demo_run st user sid txt =
     Yield (event_of_parts [text_part ''checking''])
       (Yield (event_of_parts [result_part ok_result])
          (Yield (event_of_parts [text_part ''done'']) StopAsyncIteration))"

text \<open>A stand-in for \<^verbatim>\<open>json.dumps\<close>; the executor only passes its result on.\<close>

definition demo_dumps :: "pydict \<Rightarrow> string" where
  "demo_dumps d = ''{}''"

definition demo_environment :: "memory_store environment" where
  "demo_environment = in_memory_environment demo_run demo_dumps"

definition empty_queue :: event_queue where
  "empty_queue = \<lparr>enqueued = [], closed = 0, enqueue_outcomes = [], close_outcome = None\<rparr>"

text \<open>A queue whose next two calls of \<open>enqueue_event\<close> raise.\<close>

definition rejecting_queue :: event_queue where
  "rejecting_queue =
     \<lparr>enqueued = [], closed = 0,
      enqueue_outcomes = [Some (OtherException ''queue unavailable''),
                          Some (OtherException ''queue unavailable'')],
      close_outcome = None\<rparr>"

text \<open>A session store that cannot be reached: \<open>get\<close> raises and \<open>create\<close> returns nothing.\<close>

definition broken_store_environment :: "unit environment" where
  "broken_store_environment =
     \<lparr>get_session = (\<lambda>st app user sid. (Inl (OtherException ''store unreachable''), st)),
      create_session = (\<lambda>st app user sid state. (Inr None, st)),
      run_async = (\<lambda>st user sid txt. StopAsyncIteration),
      json_dumps = demo_dumps\<rparr>"

text \<open>The session the in-memory service creates for the sample request, and the state after.\<close>

definition demo_session :: session where
  "demo_session =
     \<lparr>sess_id = ''s1'', sess_app_name = ''riskguard_adk_runner'', sess_user_id = ''a2a_user'',
      sess_state = []\<rparr>"

definition demo_session_world :: "memory_store world" where
  "demo_session_world =
     \<lparr>store = (\<lambda>k. None)((''riskguard_adk_runner'', ''a2a_user'', ''s1'') \<mapsto> demo_session),
      calls = [GetSession ''riskguard_adk_runner'' ''a2a_user'' ''s1'',
               CreateSession ''riskguard_adk_runner'' ''a2a_user'' ''s1'' []]\<rparr>"

text \<open>
  A runner whose first event has a result in its second part only, and whose second
  event has another result in its first part.
\<close>

definition late_part_run :: "memory_store \<Rightarrow> string \<Rightarrow> string \<Rightarrow> string \<Rightarrow> event_stream" where
  "late_part_run st user sid txt =
     Yield (event_of_parts [text_part ''checking'', result_part ok_result])
       (Yield (event_of_parts [result_part denied_result]) StopAsyncIteration)"

definition late_part_environment :: "memory_store environment" where
  "late_part_environment = in_memory_environment late_part_run demo_dumps"

text \<open>
  A runner none of whose events carries a result: a text, a function response with
  another name, a function response with the name and a string as response, and an event
  without content.
\<close>

definition quiet_events :: "adk_event list" where
  "quiet_events =
     [event_of_parts [text_part ''checking''],
      event_of_parts [response_part ''other_result'' (JDict ok_result)],
      event_of_parts [response_part ''risk_check_result'' (JStr ''ok'')],
      \<lparr>content = None\<rparr>]"

definition quiet_run :: "memory_store \<Rightarrow> string \<Rightarrow> string \<Rightarrow> string \<Rightarrow> event_stream" where
  "quiet_run st user sid txt = yield_all quiet_events StopAsyncIteration"

definition quiet_environment :: "memory_store environment" where
  "quiet_environment = in_memory_environment quiet_run demo_dumps"

text \<open>A request whose first part is a text part, the payload coming second.\<close>

definition text_first_request :: request_context where
  "text_first_request =
     \<lparr>context_id = Some ''s1'', task_id = Some ''t1'',
      message = Some \<lparr>role = User, parts = [TextPart ''please check'', DataPart demo_payload],
                       msg_context_id = Some ''s1'', msg_task_id = Some ''t1''\<rparr>\<rparr>"

text \<open>A runner that raises an instance of \<^verbatim>\<open>Exception\<close> after its first event.\<close>

definition failing_run :: "memory_store \<Rightarrow> string \<Rightarrow> string \<Rightarrow> string \<Rightarrow> event_stream" where
  "failing_run st user sid txt =
     Yield (event_of_parts [text_part ''checking'']) (Raise (OtherException ''model overloaded''))"

definition failing_environment :: "memory_store environment" where
  "failing_environment = in_memory_environment failing_run demo_dumps"

text \<open>A runner during whose first \<^verbatim>\<open>await\<close> the task is cancelled.\<close>

definition cancelled_run :: "memory_store \<Rightarrow> string \<Rightarrow> string \<Rightarrow> string \<Rightarrow> event_stream" where
  "cancelled_run st user sid txt = Raise CancelledError"

definition cancelled_environment :: "memory_store environment" where
  "cancelled_environment = in_memory_environment cancelled_run demo_dumps"

section \<open>Properties\<close>

subsection \<open>The queue\<close>

lemma has_key_nonempty: "has_key k d \<Longrightarrow> d \<noteq> []"
  by (auto simp: has_key_def)

lemma enqueue_event_reliable:
  "reliable q \<Longrightarrow> enqueue_event m q = (Inr (), q\<lparr>enqueued := enqueued q @ [m]\<rparr>)"
  by (simp add: reliable_def enqueue_event_def)

lemma finally_close_reliable:
  "reliable q \<Longrightarrow> finally_close pending w q = (pending, w, q\<lparr>closed := Suc (closed q)\<rparr>)"
  by (simp add: reliable_def finally_close_def close_def)

lemma reliable_enqueued: "reliable q \<Longrightarrow> reliable (q\<lparr>enqueued := ms\<rparr>)"
  by (simp add: reliable_def)

lemma world_after_finally_close: "world_after (finally_close pending w q) = w"
  by (simp add: world_after_def finally_close_def split: prod.splits sum.splits)

lemma queue_after_finally_close:
  "closed (queue_after (finally_close pending w q)) = Suc (closed q)"
  "enqueued (queue_after (finally_close pending w q)) = enqueued q"
  by (auto simp: queue_after_def finally_close_def close_def split: prod.splits sum.splits option.splits)

lemma enqueue_event_cases:
  "(\<exists>e q'. enqueue_event m q = (Inl e, q') \<and> enqueued q' = enqueued q \<and> closed q' = closed q) \<or>
   (\<exists>q'. enqueue_event m q = (Inr (), q') \<and> enqueued q' = enqueued q @ [m] \<and> closed q' = closed q)"
  by (auto simp: enqueue_event_def split: list.splits option.splits)

subsection \<open>The paths through the body\<close>

lemma execute_try_missing_context:
  assumes "context_id ctx = None \<or> context_id ctx = Some []"
  shows "execute_try env ctx w q = (Inl missing_context_error, w, q)"
  using assms by (auto simp: execute_try_def)

lemma execute_try_missing_payload:
  assumes "context_id ctx = Some cid" "cid \<noteq> []"
    and "case agent_input_data ctx of None \<Rightarrow> True
         | Some d \<Rightarrow> d = [] \<or> \<not> has_key ''trade_proposal'' d \<or> \<not> has_key ''portfolio_state'' d"
  shows "execute_try env ctx w q = (Inl missing_payload_error, w, q)"
  using assms by (auto simp: execute_try_def split: option.splits)

lemma execute_try_valid:
  assumes "context_id ctx = Some cid" "cid \<noteq> []" "agent_input_data ctx = Some data"
    "has_key ''trade_proposal'' data" "has_key ''portfolio_state'' data"
  shows "execute_try env ctx w q = run_agent env ctx cid data w q"
  using assms has_key_nonempty [of "''trade_proposal''" data] by (simp add: execute_try_def)

lemma run_agent_queue:
  "(\<exists>e w'. run_agent env ctx cid data w q = (Inl e, w', q)) \<or>
   (\<exists>r w' q' d. run_agent env ctx cid data w q = (r, w', q') \<and>
      enqueue_event (new_agent_parts_message [DataPart d] (context_id ctx) (task_id ctx)) q = (r, q'))"
  by (auto simp: run_agent_def Let_def split: option.splits prod.splits sum.splits)

lemma execute_try_shape:
  "execute_try env ctx w q = (Inl missing_context_error, w, q) \<or>
   execute_try env ctx w q = (Inl missing_payload_error, w, q) \<or>
   (\<exists>cid data. execute_try env ctx w q = run_agent env ctx cid data w q)"
  by (auto simp: execute_try_def split: option.splits)

lemma execute_try_queue:
  "(\<exists>e w'. execute_try env ctx w q = (Inl e, w', q)) \<or>
   (\<exists>r w' q' d. execute_try env ctx w q = (r, w', q') \<and>
      enqueue_event (new_agent_parts_message [DataPart d] (context_id ctx) (task_id ctx)) q = (r, q'))"
proof -
  consider "execute_try env ctx w q = (Inl missing_context_error, w, q)"
    | "execute_try env ctx w q = (Inl missing_payload_error, w, q)"
    | cid data where "execute_try env ctx w q = run_agent env ctx cid data w q"
    using execute_try_shape [of env ctx w q] by blast
  then show ?thesis
  proof cases
    case 3
    with run_agent_queue [of env ctx cid data w q] show ?thesis
      by auto
  qed auto
qed

subsection \<open>The handler and the final block\<close>

lemma world_after_execute:
  "world_after (execute env ctx w q) = fst (snd (execute_try env ctx w q))"
  by (auto simp: execute_def world_after_finally_close split: prod.splits sum.splits)

lemma execute_caught:
  assumes "execute_try env ctx w q = (Inl e, w', q)" "is_exception e" "reliable q"
  shows "execute env ctx w q =
    (None, w',
     q\<lparr>enqueued := enqueued q @
          [\<lparr>role = Agent, parts = [DataPart (error_result e)],
            msg_context_id = context_id ctx, msg_task_id = task_id ctx\<rparr>],
       closed := Suc (closed q)\<rparr>)"
  using assms
  by (simp add: execute_def enqueue_event_reliable finally_close_reliable reliable_enqueued
      new_agent_parts_message_def)

lemma execute_not_caught:
  assumes "execute_try env ctx w q = (Inl e, w', q)" "\<not> is_exception e" "reliable q"
  shows "execute env ctx w q = (Some e, w', q\<lparr>closed := Suc (closed q)\<rparr>)"
  using assms by (simp add: execute_def finally_close_reliable)

lemma execute_replied:
  assumes "execute_try env ctx w q =
      (Inr (), w', q\<lparr>enqueued := enqueued q @ [m]\<rparr>)" "reliable q"
  shows "execute env ctx w q = (None, w', q\<lparr>enqueued := enqueued q @ [m], closed := Suc (closed q)\<rparr>)"
  using assms by (simp add: execute_def finally_close_reliable reliable_enqueued)

lemma error_result_missing_context:
  "error_result missing_context_error =
     [(''approved'', JBool False),
      (''reason'', JStr ''An internal error occurred: Context ID is missing, cannot execute.'')]"
  by (simp add: error_result_def missing_context_error_def)

lemma error_result_missing_payload:
  "error_result missing_payload_error =
     [(''approved'', JBool False),
      (''reason'', JStr ''An internal error occurred: Missing 'trade_proposal' or 'portfolio_state' in data payload'')]"
  by (simp add: error_result_def missing_payload_error_def)

lemma own_errors_are_exceptions:
  "is_exception missing_context_error" "is_exception missing_payload_error"
  "is_exception (session_error cid)"
  by (simp_all add: missing_context_error_def missing_payload_error_def session_error_def)

lemma execute_queue_always:
  "closed (queue_after (execute env ctx w q)) = Suc (closed q) \<and>
   (enqueued (queue_after (execute env ctx w q)) = enqueued q \<or>
    (\<exists>m. enqueued (queue_after (execute env ctx w q)) = enqueued q @ [m]))"
proof -
  consider (raised) e w' where "execute_try env ctx w q = (Inl e, w', q)"
    | (tried) r w' q' d where "execute_try env ctx w q = (r, w', q')"
        "enqueue_event (new_agent_parts_message [DataPart d] (context_id ctx) (task_id ctx)) q
           = (r, q')"
    using execute_try_queue [of env ctx w q] by blast
  then show ?thesis
  proof cases
    case raised
    show ?thesis
    proof (cases "is_exception e")
      case True
      with raised enqueue_event_cases
        [of "new_agent_parts_message [DataPart (error_result e)] (context_id ctx) (task_id ctx)" q]
      show ?thesis
        by (auto simp: execute_def queue_after_finally_close)
    next
      case False
      with raised show ?thesis
        by (simp add: execute_def queue_after_finally_close)
    qed
  next
    case tried
    from enqueue_event_cases
      [of "new_agent_parts_message [DataPart d] (context_id ctx) (task_id ctx)" q] tried(2)
    consider (accepted) "r = Inr ()" "enqueued q' = enqueued q @
          [new_agent_parts_message [DataPart d] (context_id ctx) (task_id ctx)]"
        "closed q' = closed q"
      | (refused) e where "r = Inl e" "enqueued q' = enqueued q" "closed q' = closed q"
      by auto
    then show ?thesis
    proof cases
      case accepted
      with tried(1) show ?thesis
        by (simp add: execute_def queue_after_finally_close)
    next
      case refused
      show ?thesis
      proof (cases "is_exception e")
        case True
        with refused tried(1) enqueue_event_cases
          [of "new_agent_parts_message [DataPart (error_result e)] (context_id ctx) (task_id ctx)" q']
        show ?thesis
          by (auto simp: execute_def queue_after_finally_close)
      next
        case False
        with refused tried(1) show ?thesis
          by (simp add: execute_def queue_after_finally_close)
      qed
    qed
  qed
qed

subsection \<open>Session resolution\<close>

lemma ensure_session_calls:
  assumes "cid \<noteq> []" "ensure_session env (Some cid) w = (r, w1)"
  shows "calls w1 = calls w @ [GetSession app_name a2a_user cid] \<or>
         calls w1 = calls w @ [GetSession app_name a2a_user cid, CreateSession app_name a2a_user cid []]"
  using assms
  by (auto simp: ensure_session_def try_get_session_def try_create_session_def
      split: prod.splits option.splits sum.splits if_splits)

lemma ensure_session_fails:
  assumes "cid \<noteq> []"
    and "get_session env (store w) app_name a2a_user cid = (rg, s1)"
    and "rg = Inr None \<or> (\<exists>e. rg = Inl e \<and> is_exception e)"
    and "create_session env s1 app_name a2a_user cid [] = (rc, s2)"
    and "rc = Inr None \<or> (\<exists>e. rc = Inl e \<and> is_exception e)"
  shows "ensure_session env (Some cid) w =
     (Inr None, \<lparr>store = s2,
             calls = calls w @ [GetSession app_name a2a_user cid,
                                CreateSession app_name a2a_user cid []]\<rparr>)"
  using assms
  by (auto simp: ensure_session_def try_get_session_def try_create_session_def)

lemma ensure_session_in_memory:
  assumes "cid \<noteq> []"
  shows "ensure_session (in_memory_environment run dumps) (Some cid) w =
     (case store w (app_name, a2a_user, cid) of
        Some s \<Rightarrow> (Inr (Some s), w\<lparr>calls := calls w @ [GetSession app_name a2a_user cid]\<rparr>)
      | None \<Rightarrow>
          (Inr (Some \<lparr>sess_id = cid, sess_app_name = app_name, sess_user_id = a2a_user,
                       sess_state = []\<rparr>),
           w\<lparr>store := (store w)((app_name, a2a_user, cid) \<mapsto>
                 \<lparr>sess_id = cid, sess_app_name = app_name, sess_user_id = a2a_user, sess_state = []\<rparr>),
              calls := calls w @ [GetSession app_name a2a_user cid,
                                  CreateSession app_name a2a_user cid []]\<rparr>))"
  using assms
  by (auto simp: ensure_session_def try_get_session_def try_create_session_def
      in_memory_environment_def in_memory_get_session_def in_memory_create_session_def Let_def
      split: option.splits)

subsection \<open>Valid requests\<close>

lemma run_agent_with_session:
  assumes "context_id ctx = Some cid"
    and "ensure_session env (Some cid) w = (Inr (Some s), w1)"
    and "consume_events default_result
           (run_async env (store w1) a2a_user cid (json_dumps env data)) = (r, evs)"
  shows "run_agent env ctx cid data w q =
     (case r of
        Inl e \<Rightarrow>
          (Inl e,
           w1\<lparr>calls := calls w1 @ RunAsync a2a_user cid (json_dumps env data) # map Consumed evs\<rparr>,
           q)
      | Inr d \<Rightarrow>
          (case enqueue_event
                  (new_agent_parts_message [DataPart d] (context_id ctx) (task_id ctx)) q of
             (r', q') \<Rightarrow>
               (r',
                w1\<lparr>calls := calls w1 @ RunAsync a2a_user cid (json_dumps env data)
                                # map Consumed evs\<rparr>,
                q')))"
  using assms by (simp add: run_agent_def Let_def split: sum.splits)

lemma execute_with_session:
  assumes "context_id ctx = Some cid" "cid \<noteq> []" "agent_input_data ctx = Some data"
    "has_key ''trade_proposal'' data" "has_key ''portfolio_state'' data"
    and "ensure_session env (Some cid) w = (Inr (Some s), w1)"
    and "consume_events default_result
           (run_async env (store w1) a2a_user cid (json_dumps env data)) = (r, evs)"
    and "case r of Inl e \<Rightarrow> is_exception e | Inr d \<Rightarrow> True"
    and "reliable q"
  shows "execute env ctx w q =
     (None,
      w1\<lparr>calls := calls w1 @ RunAsync a2a_user cid (json_dumps env data) # map Consumed evs\<rparr>,
      q\<lparr>enqueued := enqueued q @
          [\<lparr>role = Agent,
            parts = [DataPart (case r of Inl e \<Rightarrow> error_result e | Inr d \<Rightarrow> d)],
            msg_context_id = context_id ctx, msg_task_id = task_id ctx\<rparr>],
        closed := Suc (closed q)\<rparr>)"
proof (cases r)
  case (Inl e)
  with assms(8) have e: "is_exception e" by simp
  have "execute_try env ctx w q =
      (Inl e,
       w1\<lparr>calls := calls w1 @ RunAsync a2a_user cid (json_dumps env data) # map Consumed evs\<rparr>, q)"
    using Inl run_agent_with_session [OF assms(1,6,7), of q]
    by (simp add: execute_try_valid [OF assms(1-5)])
  from execute_caught [OF this e assms(9)] Inl show ?thesis
    by simp
next
  case (Inr d)
  have "execute_try env ctx w q =
      (Inr (),
       w1\<lparr>calls := calls w1 @ RunAsync a2a_user cid (json_dumps env data) # map Consumed evs\<rparr>,
       q\<lparr>enqueued := enqueued q @
            [new_agent_parts_message [DataPart d] (context_id ctx) (task_id ctx)]\<rparr>)"
    using Inr run_agent_with_session [OF assms(1,6,7), of q] assms(9)
    by (simp add: execute_try_valid [OF assms(1-5)] enqueue_event_reliable)
  from execute_replied [OF this assms(9)] Inr show ?thesis
    by (simp add: new_agent_parts_message_def)
qed

lemma execute_try_without_session:
  assumes "context_id ctx = Some cid" "cid \<noteq> []" "agent_input_data ctx = Some data"
    "has_key ''trade_proposal'' data" "has_key ''portfolio_state'' data"
    and "ensure_session env (Some cid) w = (Inr None, w1)"
  shows "execute_try env ctx w q = (Inl (session_error cid), w1, q)"
  using assms by (simp add: execute_try_valid [OF assms(1-5)] run_agent_def Let_def)

lemma execute_valid_calls:
  assumes "context_id ctx = Some cid" "cid \<noteq> []" "agent_input_data ctx = Some data"
    "has_key ''trade_proposal'' data" "has_key ''portfolio_state'' data"
  shows "\<exists>r w1 tail. ensure_session env (Some cid) w = (r, w1) \<and>
           world_after (execute env ctx w q) = w1\<lparr>calls := calls w1 @ tail\<rparr> \<and>
           (\<forall>c \<in> set tail. \<not> is_store_call c)"
proof -
  obtain r w1 where ens: "ensure_session env (Some cid) w = (r, w1)"
    by (cases "ensure_session env (Some cid) w") auto
  obtain x evs where loop: "consume_events default_result
        (run_async env (store w1) a2a_user cid (json_dumps env data)) = (x, evs)"
    by (cases "consume_events default_result
        (run_async env (store w1) a2a_user cid (json_dumps env data))") auto
  have "fst (snd (run_agent env ctx cid data w q)) = w1 \<or>
        fst (snd (run_agent env ctx cid data w q)) =
          w1\<lparr>calls := calls w1 @ RunAsync a2a_user cid (json_dumps env data) # map Consumed evs\<rparr>"
    using ens loop assms(1)
    by (auto simp: run_agent_def Let_def split: sum.splits option.splits prod.splits)
  then have "world_after (execute env ctx w q) = w1\<lparr>calls := calls w1 @ []\<rparr> \<or>
        world_after (execute env ctx w q) =
          w1\<lparr>calls := calls w1 @ RunAsync a2a_user cid (json_dumps env data) # map Consumed evs\<rparr>"
    by (simp add: world_after_execute execute_try_valid [OF assms])
  then show ?thesis
  proof
    assume "world_after (execute env ctx w q) = w1\<lparr>calls := calls w1 @ []\<rparr>"
    with ens show ?thesis by (intro exI [of _ r] exI [of _ w1] exI [of _ "[]"]) simp
  next
    assume "world_after (execute env ctx w q) =
          w1\<lparr>calls := calls w1 @ RunAsync a2a_user cid (json_dumps env data) # map Consumed evs\<rparr>"
    with ens show ?thesis
      by (intro exI [of _ r] exI [of _ w1]
          exI [of _ "RunAsync a2a_user cid (json_dumps env data) # map Consumed evs"]) auto
  qed
qed

subsection \<open>What the code's test on an event amounts to\<close>

lemma part_verdict_carries: "(part_verdict p = Some d) = carries p d"
  by (cases "function_response p")
    (auto simp: part_verdict_def carries_def split: option.splits json.splits)

lemma event_verdict_carries_first: "(event_verdict ev = Some d) = carries_first ev d"
  by (auto simp: event_verdict_def carries_first_def event_parts_def part_verdict_carries
      split: option.splits list.splits)

lemma no_verdict_iff: "(event_verdict ev = None) = (\<forall>d. \<not> carries_first ev d)"
  using event_verdict_carries_first [of ev] by (cases "event_verdict ev") auto

lemma carries_first_somewhere: "carries_first ev d \<Longrightarrow> carries_somewhere ev d"
  by (auto simp: carries_first_def carries_somewhere_def split: list.splits)

subsection \<open>The loop over the events\<close>

lemma consume_events_no_verdict:
  "\<forall>ev \<in> set evs. \<forall>d. \<not> carries_first ev d \<Longrightarrow>
   consume_events acc (yield_all evs rest) =
     (fst (consume_events acc rest), evs @ snd (consume_events acc rest))"
  by (induction evs) (auto simp: no_verdict_iff [symmetric] split: prod.splits)

lemma consume_events_first_verdict:
  assumes "\<forall>ev \<in> set pre. \<forall>d. \<not> carries_first ev d" "carries_first ev d"
  shows "consume_events acc (yield_all pre (Yield ev rest)) = (Inr d, pre @ [ev])"
  using assms by (simp add: consume_events_no_verdict event_verdict_carries_first [symmetric])

lemma consume_events_exhausted:
  assumes "\<forall>ev \<in> set evs. \<forall>d. \<not> carries_first ev d"
  shows "consume_events acc (yield_all evs StopAsyncIteration) = (Inr acc, evs)"
  using assms by (simp add: consume_events_no_verdict)

lemma consume_events_raises:
  "raises_exceptions_only s \<Longrightarrow> consume_events acc s = (Inl e, evs) \<Longrightarrow> is_exception e"
  by (induction s arbitrary: evs) (auto split: option.splits prod.splits)

subsection \<open>Collaborators that raise instances of Exception only\<close>

lemma ensure_session_never_raises:
  assumes "\<forall>st a u s e st'. get_session env st a u s = (Inl e, st') \<longrightarrow> is_exception e"
    and "\<forall>st a u s d e st'. create_session env st a u s d = (Inl e, st') \<longrightarrow> is_exception e"
  shows "ensure_session env sid w \<noteq> (Inl e, w1)"
proof
  assume raised: "ensure_session env sid w = (Inl e, w1)"
  then obtain cid where cid: "sid = Some cid" "cid \<noteq> []"
    by (cases sid) (auto simp: ensure_session_def split: if_splits)
  obtain rg s1 where g: "get_session env (store w) app_name a2a_user cid = (rg, s1)"
    by (cases "get_session env (store w) app_name a2a_user cid") auto
  obtain rc s2 where c: "create_session env s1 app_name a2a_user cid [] = (rc, s2)"
    by (cases "create_session env s1 app_name a2a_user cid []") auto
  have "\<forall>e. rg = Inl e \<longrightarrow> is_exception e" "\<forall>e. rc = Inl e \<longrightarrow> is_exception e"
    using assms g c by blast+
  with raised cid g c show False
    by (auto simp: ensure_session_def try_get_session_def try_create_session_def
        split: sum.splits option.splits if_splits)
qed

lemma execute_try_result:
  assumes "\<forall>st a u s e st'. get_session env st a u s = (Inl e, st') \<longrightarrow> is_exception e"
    and "\<forall>st a u s d e st'. create_session env st a u s d = (Inl e, st') \<longrightarrow> is_exception e"
    and "\<forall>st u s t. raises_exceptions_only (run_async env st u s t)"
    and "reliable q"
  shows "(\<exists>e w'. execute_try env ctx w q = (Inl e, w', q) \<and> is_exception e) \<or>
         (\<exists>d w'. execute_try env ctx w q =
            (Inr (), w',
             q\<lparr>enqueued := enqueued q @
                  [new_agent_parts_message [DataPart d] (context_id ctx) (task_id ctx)]\<rparr>))"
proof -
  consider "execute_try env ctx w q = (Inl missing_context_error, w, q)"
    | "execute_try env ctx w q = (Inl missing_payload_error, w, q)"
    | cid data where "execute_try env ctx w q = run_agent env ctx cid data w q"
    using execute_try_shape [of env ctx w q] by blast
  then show ?thesis
  proof cases
    case 1
    then show ?thesis by (simp add: own_errors_are_exceptions)
  next
    case 2
    then show ?thesis by (simp add: own_errors_are_exceptions)
  next
    case 3
    obtain r w1 where ens: "ensure_session env (context_id ctx) w = (r, w1)"
      by (cases "ensure_session env (context_id ctx) w") auto
    obtain x evs where loop: "consume_events default_result
        (run_async env (store w1) a2a_user cid (json_dumps env data)) = (x, evs)"
      by (cases "consume_events default_result
        (run_async env (store w1) a2a_user cid (json_dumps env data))") auto
    have r: "\<forall>e. r \<noteq> Inl e"
      using ens ensure_session_never_raises [OF assms(1,2)] by auto
    have x: "\<forall>e. x = Inl e \<longrightarrow> is_exception e"
      using loop consume_events_raises assms(3) by blast
    show ?thesis
      using 3 ens loop r x assms(4)
      by (auto simp: run_agent_def Let_def enqueue_event_reliable own_errors_are_exceptions
          split: sum.splits option.splits)
  qed
qed

subsection \<open>Calls to the session store\<close>

lemma create_call_is_store_call: "is_create_call c \<Longrightarrow> is_store_call c"
  by (cases c) auto

lemma filter_no_store_calls:
  assumes "\<forall>c \<in> set cs. \<not> is_store_call c"
  shows "filter is_store_call cs = []" "filter is_create_call cs = []"
  using assms create_call_is_store_call by (auto simp: filter_empty_conv)

subsection \<open>The sample runs\<close>

lemma demo_valid:
  "context_id demo_request = Some ''s1''" "''s1'' \<noteq> []"
  "agent_input_data demo_request = Some demo_payload"
  "has_key ''trade_proposal'' demo_payload" "has_key ''portfolio_state'' demo_payload"
  by (simp_all add: demo_request_def agent_input_data_def has_key_def demo_payload_def)

lemma reliable_empty_queue: "reliable empty_queue"
  by (simp add: reliable_def empty_queue_def)

lemma fresh_session:
  "ensure_session (in_memory_environment run dumps) (Some ''s1'') empty_world =
     (Inr (Some demo_session), demo_session_world)"
  by (simp add: ensure_session_in_memory empty_world_def app_name_def a2a_user_def
      demo_session_def demo_session_world_def)

lemma in_memory_fields:
  "run_async (in_memory_environment run dumps) = run"
  "json_dumps (in_memory_environment run dumps) = dumps"
  by (simp_all add: in_memory_environment_def)

lemma in_memory_raises_nothing:
  "\<forall>st a u s e st'. get_session (in_memory_environment run dumps) st a u s = (Inl e, st')
      \<longrightarrow> is_exception e"
  "\<forall>st a u s d e st'. create_session (in_memory_environment run dumps) st a u s d = (Inl e, st')
      \<longrightarrow> is_exception e"
  by (simp_all add: in_memory_environment_def in_memory_get_session_def
      in_memory_create_session_def Let_def)

lemma sample_events:
  "carries_first (event_of_parts (result_part d # ps)) d"
  "\<not> carries_first (event_of_parts (text_part t # ps)) d"
  by (simp_all add: carries_first_def event_parts_def event_of_parts_def carries_def
      result_part_def response_part_def text_part_def)

lemma sample_verdicts:
  "event_verdict (event_of_parts (result_part d # ps)) = Some d"
  "event_verdict (event_of_parts (text_part t # ps)) = None"
  by (simp_all add: event_verdict_carries_first no_verdict_iff sample_events)

lemma demo_execution:
  "execute demo_environment demo_request empty_world empty_queue =
     (None,
      demo_session_world\<lparr>calls := calls demo_session_world @
         [RunAsync ''a2a_user'' ''s1'' ''{}'',
          Consumed (event_of_parts [text_part ''checking'']),
          Consumed (event_of_parts [result_part ok_result])]\<rparr>,
      empty_queue\<lparr>enqueued :=
          [\<lparr>role = Agent, parts = [DataPart ok_result],
            msg_context_id = Some ''s1'', msg_task_id = Some ''t1''\<rparr>],
        closed := 1\<rparr>)"
proof -
  have "consume_events default_result
          (run_async demo_environment (store demo_session_world) a2a_user ''s1''
             (json_dumps demo_environment demo_payload))
        = (Inr ok_result,
           [event_of_parts [text_part ''checking''], event_of_parts [result_part ok_result]])"
    by (simp add: demo_environment_def in_memory_fields demo_run_def sample_verdicts)
  from execute_with_session [OF demo_valid fresh_session [of demo_run demo_dumps,
        folded demo_environment_def] this _ reliable_empty_queue]
  show ?thesis
    by (simp add: demo_environment_def in_memory_fields demo_dumps_def a2a_user_def
        demo_request_def empty_queue_def)
qed

lemma failing_execution:
  "execute failing_environment demo_request empty_world empty_queue =
     (None,
      demo_session_world\<lparr>calls := calls demo_session_world @
         [RunAsync ''a2a_user'' ''s1'' ''{}'',
          Consumed (event_of_parts [text_part ''checking''])]\<rparr>,
      empty_queue\<lparr>enqueued :=
         [\<lparr>role = Agent,
           parts = [DataPart [(''approved'', JBool False),
                      (''reason'', JStr ''An internal error occurred: model overloaded'')]],
           msg_context_id = Some ''s1'', msg_task_id = Some ''t1''\<rparr>],
        closed := 1\<rparr>)"
proof -
  have "consume_events default_result
          (run_async failing_environment (store demo_session_world) a2a_user ''s1''
             (json_dumps failing_environment demo_payload))
        = (Inl (OtherException ''model overloaded''), [event_of_parts [text_part ''checking'']])"
    by (simp add: failing_environment_def in_memory_fields failing_run_def sample_verdicts)
  from execute_with_session [OF demo_valid fresh_session [of failing_run demo_dumps,
        folded failing_environment_def] this _ reliable_empty_queue]
  show ?thesis
    by (simp add: failing_environment_def in_memory_fields demo_dumps_def a2a_user_def
        demo_request_def empty_queue_def error_result_def)
qed

lemma late_part_execution:
  "execute late_part_environment demo_request empty_world empty_queue =
     (None,
      demo_session_world\<lparr>calls := calls demo_session_world @
         [RunAsync ''a2a_user'' ''s1'' ''{}'',
          Consumed (event_of_parts [text_part ''checking'', result_part ok_result]),
          Consumed (event_of_parts [result_part denied_result])]\<rparr>,
      empty_queue\<lparr>enqueued :=
          [\<lparr>role = Agent, parts = [DataPart denied_result],
            msg_context_id = Some ''s1'', msg_task_id = Some ''t1''\<rparr>],
        closed := 1\<rparr>)"
proof -
  have "consume_events default_result
          (run_async late_part_environment (store demo_session_world) a2a_user ''s1''
             (json_dumps late_part_environment demo_payload))
        = (Inr denied_result,
           [event_of_parts [text_part ''checking'', result_part ok_result],
            event_of_parts [result_part denied_result]])"
    by (simp add: late_part_environment_def in_memory_fields late_part_run_def sample_verdicts)
  from execute_with_session [OF demo_valid fresh_session [of late_part_run demo_dumps,
        folded late_part_environment_def] this _ reliable_empty_queue]
  show ?thesis
    by (simp add: late_part_environment_def in_memory_fields demo_dumps_def a2a_user_def
        demo_request_def empty_queue_def)
qed

lemma cancelled_execution:
  "execute cancelled_environment demo_request empty_world empty_queue =
     (Some CancelledError,
      demo_session_world\<lparr>calls := calls demo_session_world @
         [RunAsync ''a2a_user'' ''s1'' ''{}'']\<rparr>,
      empty_queue\<lparr>closed := 1\<rparr>)"
proof -
  have "consume_events default_result
          (run_async cancelled_environment (store demo_session_world) a2a_user ''s1''
             (json_dumps cancelled_environment demo_payload))
        = (Inl CancelledError, [])"
    by (simp add: cancelled_environment_def in_memory_fields cancelled_run_def)
  from run_agent_with_session [OF demo_valid(1) fresh_session [of cancelled_run demo_dumps,
        folded cancelled_environment_def] this, of empty_queue]
  have "execute_try cancelled_environment demo_request empty_world empty_queue =
      (Inl CancelledError,
       demo_session_world\<lparr>calls := calls demo_session_world @
         [RunAsync ''a2a_user'' ''s1'' ''{}'']\<rparr>, empty_queue)"
    by (simp add: execute_try_valid [OF demo_valid] cancelled_environment_def in_memory_fields
        demo_dumps_def a2a_user_def)
  from execute_not_caught [OF this _ reliable_empty_queue] show ?thesis
    by (simp add: empty_queue_def)
qed

lemma rejected_execution:
  "execute demo_environment demo_request empty_world rejecting_queue =
     (Some (OtherException ''queue unavailable''),
      demo_session_world\<lparr>calls := calls demo_session_world @
         [RunAsync ''a2a_user'' ''s1'' ''{}'',
          Consumed (event_of_parts [text_part ''checking'']),
          Consumed (event_of_parts [result_part ok_result])]\<rparr>,
      empty_queue\<lparr>closed := 1\<rparr>)"
proof -
  have "consume_events default_result
          (run_async demo_environment (store demo_session_world) a2a_user ''s1''
             (json_dumps demo_environment demo_payload))
        = (Inr ok_result,
           [event_of_parts [text_part ''checking''], event_of_parts [result_part ok_result]])"
    by (simp add: demo_environment_def in_memory_fields demo_run_def sample_verdicts)
  from run_agent_with_session [OF demo_valid(1) fresh_session [of demo_run demo_dumps,
        folded demo_environment_def] this, of rejecting_queue]
  have "execute_try demo_environment demo_request empty_world rejecting_queue =
      (Inl (OtherException ''queue unavailable''),
       demo_session_world\<lparr>calls := calls demo_session_world @
         [RunAsync ''a2a_user'' ''s1'' ''{}'',
          Consumed (event_of_parts [text_part ''checking'']),
          Consumed (event_of_parts [result_part ok_result])]\<rparr>,
       rejecting_queue\<lparr>enqueue_outcomes := [Some (OtherException ''queue unavailable'')]\<rparr>)"
    by (simp add: execute_try_valid [OF demo_valid] demo_environment_def in_memory_fields
        demo_dumps_def a2a_user_def enqueue_event_def rejecting_queue_def)
  then show ?thesis
    by (simp add: execute_def enqueue_event_def finally_close_def close_def rejecting_queue_def
        empty_queue_def)
qed

section \<open>The claims\<close>

text \<open>
  Claim C1, amended. For every request, valid or not, and whatever the collaborators do,
  one call of \<open>execute\<close> calls \<open>close\<close> on the queue exactly once and enqueues at most
  one message. When moreover the session store and the runner raise instances of
  \<^verbatim>\<open>Exception\<close> only (as on a validation failure, a session failure or an exception of
  the runner) and the operations of the queue do not raise, it enqueues exactly one
  message, an agent message with one data part that carries the context id and the task
  id of the request, and no exception leaves \<open>execute\<close>.
\<close>

theorem execute_one_message_one_close:
  "closed (queue_after (execute env ctx w q)) = Suc (closed q) \<and>
   (enqueued (queue_after (execute env ctx w q)) = enqueued q \<or>
    (\<exists>m. enqueued (queue_after (execute env ctx w q)) = enqueued q @ [m])) \<and>
   ((\<forall>st a u s e st'. get_session env st a u s = (Inl e, st') \<longrightarrow> is_exception e) \<and>
    (\<forall>st a u s d e st'. create_session env st a u s d = (Inl e, st') \<longrightarrow> is_exception e) \<and>
    (\<forall>st u s t. raises_exceptions_only (run_async env st u s t)) \<and>
    reliable q \<longrightarrow>
    (\<exists>w' verdict. execute env ctx w q =
       (None, w',
        q\<lparr>enqueued := enqueued q @
            [\<lparr>role = Agent, parts = [DataPart verdict],
              msg_context_id = context_id ctx, msg_task_id = task_id ctx\<rparr>],
          closed := Suc (closed q)\<rparr>)))"
proof (intro conjI impI)
  show "closed (queue_after (execute env ctx w q)) = Suc (closed q)"
    using execute_queue_always [of env ctx w q] by simp
  show "enqueued (queue_after (execute env ctx w q)) = enqueued q \<or>
    (\<exists>m. enqueued (queue_after (execute env ctx w q)) = enqueued q @ [m])"
    using execute_queue_always [of env ctx w q] by simp
next
  assume h: "(\<forall>st a u s e st'. get_session env st a u s = (Inl e, st') \<longrightarrow> is_exception e) \<and>
    (\<forall>st a u s d e st'. create_session env st a u s d = (Inl e, st') \<longrightarrow> is_exception e) \<and>
    (\<forall>st u s t. raises_exceptions_only (run_async env st u s t)) \<and>
    reliable q"
  then have q: "reliable q" by simp
  from h have h1: "\<forall>st a u s e st'. get_session env st a u s = (Inl e, st') \<longrightarrow> is_exception e"
    and h2: "\<forall>st a u s d e st'. create_session env st a u s d = (Inl e, st') \<longrightarrow> is_exception e"
    and h3: "\<forall>st u s t. raises_exceptions_only (run_async env st u s t)"
    by blast+
  consider (caught) e w' where "execute_try env ctx w q = (Inl e, w', q)" "is_exception e"
    | (replied) d w' where "execute_try env ctx w q =
        (Inr (), w',
         q\<lparr>enqueued := enqueued q @
              [new_agent_parts_message [DataPart d] (context_id ctx) (task_id ctx)]\<rparr>)"
    using execute_try_result [OF h1 h2 h3 q, of ctx w] by blast
  then show "\<exists>w' verdict. execute env ctx w q =
       (None, w',
        q\<lparr>enqueued := enqueued q @
            [\<lparr>role = Agent, parts = [DataPart verdict],
              msg_context_id = context_id ctx, msg_task_id = task_id ctx\<rparr>],
          closed := Suc (closed q)\<rparr>)"
  proof cases
    case caught
    from execute_caught [OF caught q] show ?thesis by blast
  next
    case replied
    from execute_replied [OF replied q] show ?thesis
      by (auto simp: new_agent_parts_message_def)
  qed
qed

theorem execute_one_message_one_close_witness:
  "raises_exceptions_only (failing_run (store demo_session_world) ''a2a_user'' ''s1'' ''{}'') \<and>
   reliable empty_queue \<and>
   (\<exists>w' verdict. execute failing_environment demo_request empty_world empty_queue =
       (None, w',
        empty_queue\<lparr>enqueued := enqueued empty_queue @
            [\<lparr>role = Agent, parts = [DataPart verdict],
              msg_context_id = context_id demo_request, msg_task_id = task_id demo_request\<rparr>],
          closed := Suc (closed empty_queue)\<rparr>)) \<and>
   execute failing_environment demo_request empty_world empty_queue =
     (None,
      demo_session_world\<lparr>calls := calls demo_session_world @
         [RunAsync ''a2a_user'' ''s1'' ''{}'',
          Consumed (event_of_parts [text_part ''checking''])]\<rparr>,
      \<lparr>enqueued =
         [\<lparr>role = Agent,
           parts = [DataPart [(''approved'', JBool False),
                      (''reason'', JStr ''An internal error occurred: model overloaded'')]],
           msg_context_id = Some ''s1'', msg_task_id = Some ''t1''\<rparr>],
       closed = 1, enqueue_outcomes = [], close_outcome = None\<rparr>)"
proof -
  have h: "(\<forall>st a u s e st'. get_session failing_environment st a u s = (Inl e, st')
       \<longrightarrow> is_exception e) \<and>
   (\<forall>st a u s d e st'. create_session failing_environment st a u s d = (Inl e, st')
       \<longrightarrow> is_exception e) \<and>
   (\<forall>st u s t. raises_exceptions_only (run_async failing_environment st u s t)) \<and>
   reliable empty_queue"
    using in_memory_raises_nothing [of failing_run demo_dumps] reliable_empty_queue
    by (simp add: failing_environment_def in_memory_fields failing_run_def)
  with execute_one_message_one_close [of failing_environment demo_request empty_world empty_queue]
  have "\<exists>w' verdict. execute failing_environment demo_request empty_world empty_queue =
       (None, w',
        empty_queue\<lparr>enqueued := enqueued empty_queue @
            [\<lparr>role = Agent, parts = [DataPart verdict],
              msg_context_id = context_id demo_request, msg_task_id = task_id demo_request\<rparr>],
          closed := Suc (closed empty_queue)\<rparr>)"
    by blast
  moreover have "execute failing_environment demo_request empty_world empty_queue =
     (None,
      demo_session_world\<lparr>calls := calls demo_session_world @
         [RunAsync ''a2a_user'' ''s1'' ''{}'',
          Consumed (event_of_parts [text_part ''checking''])]\<rparr>,
      \<lparr>enqueued =
         [\<lparr>role = Agent,
           parts = [DataPart [(''approved'', JBool False),
                      (''reason'', JStr ''An internal error occurred: model overloaded'')]],
           msg_context_id = Some ''s1'', msg_task_id = Some ''t1''\<rparr>],
       closed = 1, enqueue_outcomes = [], close_outcome = None\<rparr>)"
    using failing_execution by (simp add: empty_queue_def)
  moreover have
    "raises_exceptions_only (failing_run (store demo_session_world) ''a2a_user'' ''s1'' ''{}'')"
    by (simp add: failing_run_def)
  ultimately show ?thesis using reliable_empty_queue by blast
qed

text \<open>
  Claim C1 as stated covers every failure path. When the task is cancelled while the
  runner is awaited, \<^verbatim>\<open>CancelledError\<close> is not caught by \<^verbatim>\<open>except Exception\<close>: it leaves
  \<open>execute\<close> and nothing is enqueued. And when the queue refuses the reply and then the
  error message, the exception of the second call, made in the handler, leaves
  \<open>execute\<close> and nothing is enqueued.
\<close>

theorem execute_one_message_one_close_counterexample:
  "escaped (execute cancelled_environment demo_request empty_world empty_queue)
     = Some CancelledError \<and>
   enqueued (queue_after (execute cancelled_environment demo_request empty_world empty_queue))
     = [] \<and>
   escaped (execute demo_environment demo_request empty_world rejecting_queue)
     = Some (OtherException ''queue unavailable'') \<and>
   enqueued (queue_after (execute demo_environment demo_request empty_world rejecting_queue))
     = []"
  using cancelled_execution rejected_execution
  by (simp add: escaped_def queue_after_def empty_queue_def)

text \<open>
  Claim C2. When the context id of the request is \<^verbatim>\<open>None\<close> or empty, the state of the
  collaborators and the log of calls are unchanged, so neither the session store nor the
  runner is invoked; and on a queue whose operations do not raise, \<open>execute\<close> enqueues a
  message whose data has \<open>approved = False\<close> and the reason
  \<open>An internal error occurred: Context ID is missing, cannot execute.\<close>, and closes the
  queue.
\<close>

theorem missing_context_id_rejected:
  assumes "context_id ctx = None \<or> context_id ctx = Some ''''"
  shows "world_after (execute env ctx w q) = w \<and>
    (reliable q \<longrightarrow>
     execute env ctx w q =
      (None, w,
       q\<lparr>enqueued := enqueued q @
         [\<lparr>role = Agent,
           parts = [DataPart [(''approved'', JBool False),
              (''reason'', JStr ''An internal error occurred: Context ID is missing, cannot execute.'')]],
           msg_context_id = context_id ctx, msg_task_id = task_id ctx\<rparr>],
         closed := Suc (closed q)\<rparr>))"
proof (intro conjI impI)
  have body: "execute_try env ctx w q = (Inl missing_context_error, w, q)"
    using assms by (intro execute_try_missing_context) simp
  show "world_after (execute env ctx w q) = w"
    by (simp add: world_after_execute body)
  assume "reliable q"
  from execute_caught [OF body own_errors_are_exceptions(1) this]
  show "execute env ctx w q =
      (None, w,
       q\<lparr>enqueued := enqueued q @
         [\<lparr>role = Agent,
           parts = [DataPart [(''approved'', JBool False),
              (''reason'', JStr ''An internal error occurred: Context ID is missing, cannot execute.'')]],
           msg_context_id = context_id ctx, msg_task_id = task_id ctx\<rparr>],
         closed := Suc (closed q)\<rparr>)"
    by (simp add: error_result_missing_context)
qed

theorem missing_context_id_rejected_witness:
  "context_id (demo_request\<lparr>context_id := None\<rparr>) = None \<and> reliable empty_queue \<and>
   execute demo_environment (demo_request\<lparr>context_id := None\<rparr>) empty_world empty_queue =
    (None, empty_world,
     \<lparr>enqueued =
         [\<lparr>role = Agent,
           parts = [DataPart [(''approved'', JBool False),
              (''reason'', JStr ''An internal error occurred: Context ID is missing, cannot execute.'')]],
           msg_context_id = None, msg_task_id = Some ''t1''\<rparr>],
       closed = 1, enqueue_outcomes = [], close_outcome = None\<rparr>)"
  using missing_context_id_rejected
    [of "demo_request\<lparr>context_id := None\<rparr>" demo_environment empty_world empty_queue]
    reliable_empty_queue
  by (simp add: demo_request_def empty_queue_def)

text \<open>
  Claim C3. When the payload of the request is present but lacks the key
  \<open>portfolio_state\<close> or the key \<open>trade_proposal\<close>, the log of calls is unchanged: the
  runner is not invoked (nor is the session store); and on a queue whose operations do
  not raise, \<open>execute\<close> enqueues a message whose data has \<open>approved = False\<close>.
\<close>

theorem incomplete_payload_rejected:
  assumes "agent_input_data ctx = Some data"
    and "\<not> has_key ''portfolio_state'' data \<or> \<not> has_key ''trade_proposal'' data"
  shows "world_after (execute env ctx w q) = w \<and>
    (reliable q \<longrightarrow>
     execute env ctx w q =
      (None, w,
       q\<lparr>enqueued := enqueued q @
         [\<lparr>role = Agent,
           parts = [DataPart [(''approved'', JBool False),
              (''reason'', JStr
                 (if context_id ctx = None \<or> context_id ctx = Some ''''
                  then ''An internal error occurred: Context ID is missing, cannot execute.''
                  else ''An internal error occurred: Missing 'trade_proposal' or 'portfolio_state' in data payload''))]],
           msg_context_id = context_id ctx, msg_task_id = task_id ctx\<rparr>],
         closed := Suc (closed q)\<rparr>))"
proof (cases "context_id ctx = None \<or> context_id ctx = Some ''''")
  case True
  then have body: "execute_try env ctx w q = (Inl missing_context_error, w, q)"
    by (intro execute_try_missing_context) simp
  show ?thesis
    using True execute_caught [OF body own_errors_are_exceptions(1)]
    by (simp add: world_after_execute body error_result_missing_context)
next
  case False
  then obtain cid where cid: "context_id ctx = Some cid" "cid \<noteq> []"
    by (cases "context_id ctx") auto
  have body: "execute_try env ctx w q = (Inl missing_payload_error, w, q)"
    using assms by (intro execute_try_missing_payload [OF cid]) auto
  show ?thesis
    using False execute_caught [OF body own_errors_are_exceptions(2)]
    by (simp add: world_after_execute body error_result_missing_payload)
qed

theorem incomplete_payload_rejected_witness:
  "agent_input_data
     (demo_request\<lparr>message := Some \<lparr>role = User,
         parts = [DataPart [(''trade_proposal'', JStr ''buy 10 ABC'')]],
         msg_context_id = Some ''s1'', msg_task_id = Some ''t1''\<rparr>\<rparr>)
     = Some [(''trade_proposal'', JStr ''buy 10 ABC'')] \<and>
   \<not> has_key ''portfolio_state'' [(''trade_proposal'', JStr ''buy 10 ABC'')] \<and>
   reliable empty_queue \<and>
   execute demo_environment
     (demo_request\<lparr>message := Some \<lparr>role = User,
         parts = [DataPart [(''trade_proposal'', JStr ''buy 10 ABC'')]],
         msg_context_id = Some ''s1'', msg_task_id = Some ''t1''\<rparr>\<rparr>)
     empty_world empty_queue =
    (None, empty_world,
     \<lparr>enqueued =
         [\<lparr>role = Agent,
           parts = [DataPart [(''approved'', JBool False),
              (''reason'', JStr ''An internal error occurred: Missing 'trade_proposal' or 'portfolio_state' in data payload'')]],
           msg_context_id = Some ''s1'', msg_task_id = Some ''t1''\<rparr>],
       closed = 1, enqueue_outcomes = [], close_outcome = None\<rparr>)"
  using incomplete_payload_rejected
    [of "demo_request\<lparr>message := Some \<lparr>role = User,
         parts = [DataPart [(''trade_proposal'', JStr ''buy 10 ABC'')]],
         msg_context_id = Some ''s1'', msg_task_id = Some ''t1''\<rparr>\<rparr>"
        "[(''trade_proposal'', JStr ''buy 10 ABC'')]" demo_environment empty_world empty_queue]
    reliable_empty_queue
  by (simp add: demo_request_def empty_queue_def agent_input_data_def has_key_def)

text \<open>
  Claim C4, amended. For a valid request whose session is established, when the runner's
  stream yields events none of which carries a result in its first part, and then an
  event whose first part carries a result (a function response named
  \<open>risk_check_result\<close> whose response is a mapping), \<open>execute\<close> replies with that
  mapping, and the events it has pulled are those up to this event and no more, whatever
  the stream holds after it.
\<close>

theorem first_verdict_adopted:
  assumes "context_id ctx = Some cid" "cid \<noteq> []" "agent_input_data ctx = Some data"
    "has_key ''trade_proposal'' data" "has_key ''portfolio_state'' data"
    and "ensure_session env (Some cid) w = (Inr (Some s), w1)"
    and "run_async env (store w1) ''a2a_user'' cid (json_dumps env data)
           = yield_all pre (Yield ev rest)"
    and "\<forall>e \<in> set pre. \<forall>d. \<not> carries_first e d"
    and "carries_first ev verdict"
    and "reliable q"
  shows "execute env ctx w q =
     (None,
      w1\<lparr>calls := calls w1 @ RunAsync ''a2a_user'' cid (json_dumps env data)
                      # map Consumed (pre @ [ev])\<rparr>,
      q\<lparr>enqueued := enqueued q @
          [\<lparr>role = Agent, parts = [DataPart verdict],
            msg_context_id = context_id ctx, msg_task_id = task_id ctx\<rparr>],
        closed := Suc (closed q)\<rparr>)"
proof -
  have "consume_events default_result
          (run_async env (store w1) a2a_user cid (json_dumps env data)) = (Inr verdict, pre @ [ev])"
    using assms(7-9) by (simp add: a2a_user_def consume_events_first_verdict)
  from execute_with_session [OF assms(1-6) this _ assms(10)] show ?thesis
    by (simp add: a2a_user_def)
qed

theorem first_verdict_adopted_witness:
  "context_id demo_request = Some ''s1'' \<and> agent_input_data demo_request = Some demo_payload \<and>
   has_key ''trade_proposal'' demo_payload \<and> has_key ''portfolio_state'' demo_payload \<and>
   ensure_session demo_environment (Some ''s1'') empty_world =
     (Inr (Some demo_session), demo_session_world) \<and>
   run_async demo_environment (store demo_session_world) ''a2a_user'' ''s1''
       (json_dumps demo_environment demo_payload) =
     yield_all [event_of_parts [text_part ''checking'']]
       (Yield (event_of_parts [result_part ok_result])
          (Yield (event_of_parts [text_part ''done'']) StopAsyncIteration)) \<and>
   \<not> carries_first (event_of_parts [text_part ''checking'']) ok_result \<and>
   carries_first (event_of_parts [result_part ok_result]) ok_result \<and>
   reliable empty_queue \<and>
   execute demo_environment demo_request empty_world empty_queue =
     (None,
      demo_session_world\<lparr>calls := calls demo_session_world @
         [RunAsync ''a2a_user'' ''s1'' (json_dumps demo_environment demo_payload),
          Consumed (event_of_parts [text_part ''checking'']),
          Consumed (event_of_parts [result_part ok_result])]\<rparr>,
      \<lparr>enqueued = [\<lparr>role = Agent, parts = [DataPart ok_result],
                     msg_context_id = Some ''s1'', msg_task_id = Some ''t1''\<rparr>],
       closed = 1, enqueue_outcomes = [], close_outcome = None\<rparr>)"
proof -
  have ens: "ensure_session demo_environment (Some ''s1'') empty_world =
      (Inr (Some demo_session), demo_session_world)"
    by (simp add: demo_environment_def fresh_session)
  have run: "run_async demo_environment (store demo_session_world) ''a2a_user'' ''s1''
       (json_dumps demo_environment demo_payload) =
     yield_all [event_of_parts [text_part ''checking'']]
       (Yield (event_of_parts [result_part ok_result])
          (Yield (event_of_parts [text_part ''done'']) StopAsyncIteration))"
    by (simp add: demo_environment_def in_memory_fields demo_run_def)
  have pre: "\<forall>e \<in> set [event_of_parts [text_part ''checking'']]. \<forall>d. \<not> carries_first e d"
    by (simp add: sample_events)
  have ev: "carries_first (event_of_parts [result_part ok_result]) ok_result"
    by (rule sample_events)
  have "execute demo_environment demo_request empty_world empty_queue =
     (None,
      demo_session_world\<lparr>calls := calls demo_session_world @
         RunAsync ''a2a_user'' ''s1'' (json_dumps demo_environment demo_payload) #
         map Consumed ([event_of_parts [text_part ''checking'']] @
            [event_of_parts [result_part ok_result]])\<rparr>,
      empty_queue\<lparr>enqueued := enqueued empty_queue @
          [\<lparr>role = Agent, parts = [DataPart ok_result],
            msg_context_id = context_id demo_request, msg_task_id = task_id demo_request\<rparr>],
        closed := Suc (closed empty_queue)\<rparr>)"
    by (rule first_verdict_adopted [OF demo_valid ens run pre ev reliable_empty_queue])
  then have "execute demo_environment demo_request empty_world empty_queue =
     (None,
      demo_session_world\<lparr>calls := calls demo_session_world @
         [RunAsync ''a2a_user'' ''s1'' (json_dumps demo_environment demo_payload),
          Consumed (event_of_parts [text_part ''checking'']),
          Consumed (event_of_parts [result_part ok_result])]\<rparr>,
      \<lparr>enqueued = [\<lparr>role = Agent, parts = [DataPart ok_result],
                     msg_context_id = Some ''s1'', msg_task_id = Some ''t1''\<rparr>],
       closed = 1, enqueue_outcomes = [], close_outcome = None\<rparr>)"
    by (simp add: empty_queue_def demo_valid(1) demo_request_def)
  with demo_valid ens run pre ev reliable_empty_queue show ?thesis
    by simp
qed

text \<open>
  Claim C4 as stated adopts the first event that carries a result. The first event of
  this stream carries the result \<open>ok_result\<close>, in its second part; \<open>execute\<close> pulls the
  next event as well and replies with the result of that one.
\<close>

theorem first_verdict_adopted_counterexample:
  "run_async late_part_environment (store demo_session_world) ''a2a_user'' ''s1'' ''{}'' =
     Yield (event_of_parts [text_part ''checking'', result_part ok_result])
       (Yield (event_of_parts [result_part denied_result]) StopAsyncIteration) \<and>
   carries_somewhere (event_of_parts [text_part ''checking'', result_part ok_result]) ok_result \<and>
   execute late_part_environment demo_request empty_world empty_queue =
     (None,
      demo_session_world\<lparr>calls := calls demo_session_world @
         [RunAsync ''a2a_user'' ''s1'' ''{}'',
          Consumed (event_of_parts [text_part ''checking'', result_part ok_result]),
          Consumed (event_of_parts [result_part denied_result])]\<rparr>,
      \<lparr>enqueued = [\<lparr>role = Agent, parts = [DataPart denied_result],
                     msg_context_id = Some ''s1'', msg_task_id = Some ''t1''\<rparr>],
       closed = 1, enqueue_outcomes = [], close_outcome = None\<rparr>) \<and>
   denied_result \<noteq> ok_result"
proof -
  have "carries_somewhere (event_of_parts [text_part ''checking'', result_part ok_result]) ok_result"
    by (simp add: carries_somewhere_def event_parts_def event_of_parts_def carries_def
        result_part_def response_part_def)
  moreover have "denied_result \<noteq> ok_result"
    by (simp add: denied_result_def ok_result_def)
  moreover have "run_async late_part_environment (store demo_session_world) ''a2a_user'' ''s1'' ''{}'' =
     Yield (event_of_parts [text_part ''checking'', result_part ok_result])
       (Yield (event_of_parts [result_part denied_result]) StopAsyncIteration)"
    by (simp add: late_part_environment_def in_memory_fields late_part_run_def)
  ultimately show ?thesis
    using late_part_execution by (simp add: empty_queue_def)
qed

text \<open>
  Claim C5. For a valid request whose session is established, when the runner's stream
  ends and none of its events carries, in any part, a function response named
  \<open>risk_check_result\<close> whose response is a mapping, \<open>execute\<close> replies with the default
  \<open>{approved: False, reason: "Agent did not produce a result."}\<close>.
\<close>

theorem no_verdict_gives_default:
  assumes "context_id ctx = Some cid" "cid \<noteq> []" "agent_input_data ctx = Some data"
    "has_key ''trade_proposal'' data" "has_key ''portfolio_state'' data"
    and "ensure_session env (Some cid) w = (Inr (Some s), w1)"
    and "run_async env (store w1) ''a2a_user'' cid (json_dumps env data)
           = yield_all evs StopAsyncIteration"
    and "\<forall>e \<in> set evs. \<forall>d. \<not> carries_somewhere e d"
    and "reliable q"
  shows "execute env ctx w q =
     (None,
      w1\<lparr>calls := calls w1 @ RunAsync ''a2a_user'' cid (json_dumps env data) # map Consumed evs\<rparr>,
      q\<lparr>enqueued := enqueued q @
          [\<lparr>role = Agent,
            parts = [DataPart [(''approved'', JBool False),
                               (''reason'', JStr ''Agent did not produce a result.'')]],
            msg_context_id = context_id ctx, msg_task_id = task_id ctx\<rparr>],
        closed := Suc (closed q)\<rparr>)"
proof -
  have "\<forall>e \<in> set evs. \<forall>d. \<not> carries_first e d"
    using assms(8) carries_first_somewhere by blast
  then have "consume_events default_result
          (run_async env (store w1) a2a_user cid (json_dumps env data)) = (Inr default_result, evs)"
    using assms(7) by (simp add: a2a_user_def consume_events_exhausted)
  from execute_with_session [OF assms(1-6) this _ assms(9)] show ?thesis
    by (simp add: a2a_user_def default_result_def)
qed

theorem no_verdict_gives_default_witness:
  "context_id demo_request = Some ''s1'' \<and> agent_input_data demo_request = Some demo_payload \<and>
   has_key ''trade_proposal'' demo_payload \<and> has_key ''portfolio_state'' demo_payload \<and>
   ensure_session quiet_environment (Some ''s1'') empty_world =
     (Inr (Some demo_session), demo_session_world) \<and>
   run_async quiet_environment (store demo_session_world) ''a2a_user'' ''s1''
       (json_dumps quiet_environment demo_payload) = yield_all quiet_events StopAsyncIteration \<and>
   reliable empty_queue \<and>
   execute quiet_environment demo_request empty_world empty_queue =
     (None,
      demo_session_world\<lparr>calls := calls demo_session_world @
         RunAsync ''a2a_user'' ''s1'' (json_dumps quiet_environment demo_payload)
         # map Consumed quiet_events\<rparr>,
      \<lparr>enqueued =
         [\<lparr>role = Agent,
           parts = [DataPart [(''approved'', JBool False),
                              (''reason'', JStr ''Agent did not produce a result.'')]],
           msg_context_id = Some ''s1'', msg_task_id = Some ''t1''\<rparr>],
       closed = 1, enqueue_outcomes = [], close_outcome = None\<rparr>)"
proof -
  have ens: "ensure_session quiet_environment (Some ''s1'') empty_world =
      (Inr (Some demo_session), demo_session_world)"
    by (simp add: quiet_environment_def fresh_session)
  have run: "run_async quiet_environment (store demo_session_world) ''a2a_user'' ''s1''
       (json_dumps quiet_environment demo_payload) = yield_all quiet_events StopAsyncIteration"
    by (simp add: quiet_environment_def in_memory_fields quiet_run_def)
  have none: "\<forall>e \<in> set quiet_events. \<forall>d. \<not> carries_somewhere e d"
    by (simp add: quiet_events_def carries_somewhere_def event_parts_def event_of_parts_def
        carries_def response_part_def text_part_def)
  have "execute quiet_environment demo_request empty_world empty_queue =
     (None,
      demo_session_world\<lparr>calls := calls demo_session_world @
         RunAsync ''a2a_user'' ''s1'' (json_dumps quiet_environment demo_payload)
         # map Consumed quiet_events\<rparr>,
      empty_queue\<lparr>enqueued := enqueued empty_queue @
          [\<lparr>role = Agent,
            parts = [DataPart [(''approved'', JBool False),
                               (''reason'', JStr ''Agent did not produce a result.'')]],
            msg_context_id = context_id demo_request, msg_task_id = task_id demo_request\<rparr>],
        closed := Suc (closed empty_queue)\<rparr>)"
    by (rule no_verdict_gives_default [OF demo_valid ens run none reliable_empty_queue])
  then have "execute quiet_environment demo_request empty_world empty_queue =
     (None,
      demo_session_world\<lparr>calls := calls demo_session_world @
         RunAsync ''a2a_user'' ''s1'' (json_dumps quiet_environment demo_payload)
         # map Consumed quiet_events\<rparr>,
      \<lparr>enqueued =
         [\<lparr>role = Agent,
           parts = [DataPart [(''approved'', JBool False),
                              (''reason'', JStr ''Agent did not produce a result.'')]],
           msg_context_id = Some ''s1'', msg_task_id = Some ''t1''\<rparr>],
       closed = 1, enqueue_outcomes = [], close_outcome = None\<rparr>)"
    by (simp add: empty_queue_def demo_valid(1) demo_request_def)
  with demo_valid ens run none reliable_empty_queue show ?thesis
    by simp
qed

text \<open>
  Claim C6, amended. For every valid request, the first call \<open>execute\<close> makes is
  \<open>get_session\<close> with the application name \<open>riskguard_adk_runner\<close>, the user id
  \<open>a2a_user\<close> and the context id of the request as the session id.
\<close>

theorem get_session_arguments:
  assumes "context_id ctx = Some cid" "cid \<noteq> []" "agent_input_data ctx = Some data"
    "has_key ''trade_proposal'' data" "has_key ''portfolio_state'' data"
  shows "\<exists>rest. calls (world_after (execute env ctx w q)) =
           calls w @ GetSession ''riskguard_adk_runner'' ''a2a_user'' cid # rest"
proof -
  obtain r w1 tail where *: "ensure_session env (Some cid) w = (r, w1)"
      "world_after (execute env ctx w q) = w1\<lparr>calls := calls w1 @ tail\<rparr>"
    using execute_valid_calls [OF assms, of env w q] by blast
  from ensure_session_calls [OF assms(2) *(1)] *(2) show ?thesis
    by (auto simp: app_name_def a2a_user_def)
qed

theorem get_session_arguments_witness:
  "context_id demo_request = Some ''s1'' \<and> ''s1'' \<noteq> [] \<and>
   agent_input_data demo_request = Some demo_payload \<and>
   has_key ''trade_proposal'' demo_payload \<and> has_key ''portfolio_state'' demo_payload \<and>
   (\<exists>rest. calls (world_after (execute demo_environment demo_request empty_world empty_queue)) =
           calls empty_world @ GetSession ''riskguard_adk_runner'' ''a2a_user'' ''s1'' # rest)"
  using get_session_arguments [OF demo_valid, of demo_environment empty_world empty_queue]
    demo_valid
  by simp

text \<open>
  Claim C6 as stated names the application \<open>risk_adapter\<close> and the user \<open>system_user\<close>:
  the sample request, which is valid, leads to no such call.
\<close>

theorem get_session_arguments_counterexample:
  "GetSession ''risk_adapter'' ''system_user'' ''s1''
     \<notin> set (calls (world_after (execute demo_environment demo_request empty_world empty_queue)))"
  by (simp add: demo_execution world_after_def demo_session_world_def)

text \<open>
  Claim C7. For a valid request, when \<open>get_session\<close> raises an exception or finds
  nothing and \<open>create_session\<close> then raises an exception or returns nothing, \<open>execute\<close>
  makes these two calls and no other (the runner is not invoked); and on a queue whose
  operations do not raise it enqueues exactly one message, whose data has
  \<open>approved = False\<close> and a reason that reports the failure to establish the session,
  and closes the queue.
\<close>

theorem session_unavailable_reported:
  assumes "context_id ctx = Some cid" "cid \<noteq> []" "agent_input_data ctx = Some data"
    "has_key ''trade_proposal'' data" "has_key ''portfolio_state'' data"
    and "get_session env (store w) ''riskguard_adk_runner'' ''a2a_user'' cid = (rg, s1)"
    and "rg = Inr None \<or> (\<exists>e. rg = Inl e \<and> is_exception e)"
    and "create_session env s1 ''riskguard_adk_runner'' ''a2a_user'' cid [] = (rc, s2)"
    and "rc = Inr None \<or> (\<exists>e. rc = Inl e \<and> is_exception e)"
  shows "world_after (execute env ctx w q) =
      \<lparr>store = s2,
       calls = calls w @ [GetSession ''riskguard_adk_runner'' ''a2a_user'' cid,
                          CreateSession ''riskguard_adk_runner'' ''a2a_user'' cid []]\<rparr> \<and>
    (reliable q \<longrightarrow>
     execute env ctx w q =
     (None,
      \<lparr>store = s2,
       calls = calls w @ [GetSession ''riskguard_adk_runner'' ''a2a_user'' cid,
                          CreateSession ''riskguard_adk_runner'' ''a2a_user'' cid []]\<rparr>,
      q\<lparr>enqueued := enqueued q @
          [\<lparr>role = Agent,
            parts = [DataPart [(''approved'', JBool False),
              (''reason'', JStr (''An internal error occurred: Failed to establish ADK session. session_id was ''
                  @ quote @ cid @ quote @ ''.''))]],
            msg_context_id = context_id ctx, msg_task_id = task_id ctx\<rparr>],
        closed := Suc (closed q)\<rparr>))"
proof -
  have g: "get_session env (store w) app_name a2a_user cid = (rg, s1)"
    using assms(6) by (simp add: app_name_def a2a_user_def)
  have c: "create_session env s1 app_name a2a_user cid [] = (rc, s2)"
    using assms(8) by (simp add: app_name_def a2a_user_def)
  have "ensure_session env (Some cid) w =
     (Inr None, \<lparr>store = s2,
             calls = calls w @ [GetSession app_name a2a_user cid,
                                CreateSession app_name a2a_user cid []]\<rparr>)"
    by (rule ensure_session_fails [OF assms(2) g assms(7) c assms(9)])
  from execute_try_without_session [OF assms(1-5) this, of q]
  have body: "execute_try env ctx w q =
      (Inl (session_error cid),
       \<lparr>store = s2,
        calls = calls w @ [GetSession app_name a2a_user cid,
                           CreateSession app_name a2a_user cid []]\<rparr>, q)" .
  show ?thesis
    using execute_caught [OF body own_errors_are_exceptions(3)]
    by (simp add: world_after_execute body error_result_def session_error_def app_name_def
        a2a_user_def)
qed

theorem session_unavailable_reported_witness:
  "context_id demo_request = Some ''s1'' \<and> ''s1'' \<noteq> [] \<and>
   agent_input_data demo_request = Some demo_payload \<and>
   has_key ''trade_proposal'' demo_payload \<and> has_key ''portfolio_state'' demo_payload \<and>
   get_session broken_store_environment (store \<lparr>store = (), calls = []\<rparr>)
      ''riskguard_adk_runner'' ''a2a_user'' ''s1'' = (Inl (OtherException ''store unreachable''), ()) \<and>
   is_exception (OtherException ''store unreachable'') \<and>
   create_session broken_store_environment () ''riskguard_adk_runner'' ''a2a_user'' ''s1'' []
      = (Inr None, ()) \<and>
   reliable empty_queue \<and>
   execute broken_store_environment demo_request \<lparr>store = (), calls = []\<rparr> empty_queue =
     (None,
      \<lparr>store = (),
       calls = [GetSession ''riskguard_adk_runner'' ''a2a_user'' ''s1'',
                CreateSession ''riskguard_adk_runner'' ''a2a_user'' ''s1'' []]\<rparr>,
      \<lparr>enqueued =
          [\<lparr>role = Agent,
            parts = [DataPart [(''approved'', JBool False),
              (''reason'', JStr ''An internal error occurred: Failed to establish ADK session. session_id was 's1'.'')]],
            msg_context_id = Some ''s1'', msg_task_id = Some ''t1''\<rparr>],
        closed = 1, enqueue_outcomes = [], close_outcome = None\<rparr>)"
  using session_unavailable_reported [OF demo_valid,
      of broken_store_environment "\<lparr>store = (), calls = []\<rparr>"
         "Inl (OtherException ''store unreachable'')" "()" "Inr None" "()" empty_queue]
    demo_valid reliable_empty_queue
  by (simp add: broken_store_environment_def empty_queue_def demo_request_def quote_def)

text \<open>
  Claim C8. Two valid requests with the same non-empty context id, executed one after
  the other on an in-memory session service that starts empty: the session service
  receives exactly one \<open>create_session\<close> call in total, and a \<open>get_session\<close> call for
  each request; its calls are, in order, get and create for the first request and get for
  the second.
\<close>

theorem session_reused_by_second_request:
  assumes "cid \<noteq> []"
    and "context_id ctx1 = Some cid" "agent_input_data ctx1 = Some data1"
      "has_key ''trade_proposal'' data1" "has_key ''portfolio_state'' data1"
    and "context_id ctx2 = Some cid" "agent_input_data ctx2 = Some data2"
      "has_key ''trade_proposal'' data2" "has_key ''portfolio_state'' data2"
  shows "let w1 = world_after (execute (in_memory_environment run1 dumps1) ctx1 empty_world q1);
             w2 = world_after (execute (in_memory_environment run2 dumps2) ctx2 w1 q2)
         in filter is_store_call (calls w1) =
              [GetSession ''riskguard_adk_runner'' ''a2a_user'' cid,
               CreateSession ''riskguard_adk_runner'' ''a2a_user'' cid []] \<and>
            (\<exists>new. calls w2 = calls w1 @ new \<and>
               filter is_store_call new = [GetSession ''riskguard_adk_runner'' ''a2a_user'' cid]) \<and>
            length (filter is_create_call (calls w2)) = 1"
proof -
  define env1 where "env1 = in_memory_environment run1 dumps1"
  define env2 where "env2 = in_memory_environment run2 dumps2"
  define k where "k = (app_name, a2a_user, cid)"
  define s where
    "s = \<lparr>sess_id = cid, sess_app_name = app_name, sess_user_id = a2a_user, sess_state = []\<rparr>"
  define w1 where "w1 = world_after (execute env1 ctx1 empty_world q1)"
  define w2 where "w2 = world_after (execute env2 ctx2 w1 q2)"
  obtain r1 v1 tail1 where first:
    "ensure_session env1 (Some cid) empty_world = (r1, v1)"
    "w1 = v1\<lparr>calls := calls v1 @ tail1\<rparr>" "\<forall>c \<in> set tail1. \<not> is_store_call c"
    using execute_valid_calls [OF assms(2) assms(1) assms(3-5), of env1 empty_world q1]
    unfolding w1_def by blast
  have v1: "v1 = \<lparr>store = (\<lambda>k. None)(k \<mapsto> s),
                  calls = [GetSession app_name a2a_user cid, CreateSession app_name a2a_user cid []]\<rparr>"
    using first(1) assms(1)
    by (auto simp add: env1_def ensure_session_in_memory empty_world_def k_def s_def)
  have w1: "store w1 = (\<lambda>k. None)(k \<mapsto> s)"
    "calls w1 = [GetSession app_name a2a_user cid, CreateSession app_name a2a_user cid []] @ tail1"
    using first(2) v1 by simp_all
  obtain r2 v2 tail2 where second:
    "ensure_session env2 (Some cid) w1 = (r2, v2)"
    "w2 = v2\<lparr>calls := calls v2 @ tail2\<rparr>" "\<forall>c \<in> set tail2. \<not> is_store_call c"
    using execute_valid_calls [OF assms(6) assms(1) assms(7-9), of env2 w1 q2]
    unfolding w2_def by blast
  have v2: "calls v2 = calls w1 @ [GetSession app_name a2a_user cid]"
    using second(1) assms(1) w1(1)
    by (auto simp add: env2_def ensure_session_in_memory k_def)
  have w2: "calls w2 = calls w1 @ GetSession app_name a2a_user cid # tail2"
    using second(2) v2 by simp
  have a: "filter is_store_call (calls w1) =
      [GetSession app_name a2a_user cid, CreateSession app_name a2a_user cid []]"
    using w1(2) filter_no_store_calls(1) [OF first(3)] by simp
  have b: "filter is_store_call (GetSession app_name a2a_user cid # tail2) =
      [GetSession app_name a2a_user cid]"
    using filter_no_store_calls(1) [OF second(3)] by simp
  have c: "length (filter is_create_call (calls w2)) = 1"
    using w2 w1(2) filter_no_store_calls(2) [OF first(3)] filter_no_store_calls(2) [OF second(3)]
    by simp
  from a b c w2 show ?thesis
    unfolding Let_def w1_def [symmetric, unfolded env1_def] w2_def [symmetric, unfolded env2_def]
    by (auto simp: app_name_def a2a_user_def)
qed

theorem session_reused_by_second_request_witness:
  "''s1'' \<noteq> [] \<and> context_id demo_request = Some ''s1'' \<and>
   agent_input_data demo_request = Some demo_payload \<and>
   has_key ''trade_proposal'' demo_payload \<and> has_key ''portfolio_state'' demo_payload \<and>
   (let w1 = world_after
               (execute (in_memory_environment demo_run demo_dumps) demo_request empty_world
                  empty_queue);
        w2 = world_after
               (execute (in_memory_environment late_part_run demo_dumps) demo_request w1
                  empty_queue)
    in filter is_store_call (calls w1) =
         [GetSession ''riskguard_adk_runner'' ''a2a_user'' ''s1'',
          CreateSession ''riskguard_adk_runner'' ''a2a_user'' ''s1'' []] \<and>
       (\<exists>new. calls w2 = calls w1 @ new \<and>
          filter is_store_call new = [GetSession ''riskguard_adk_runner'' ''a2a_user'' ''s1'']) \<and>
       length (filter is_create_call (calls w2)) = 1)"
  using session_reused_by_second_request [OF demo_valid(2) demo_valid(1,3,4,5) demo_valid(1,3,4,5),
      of demo_run demo_dumps empty_queue late_part_run demo_dumps empty_queue]
    demo_valid
  by simp

text \<open>
  Claim C9. The verdict of an event is read from the first part of its content only. An
  event whose first part carries no verdict is skipped although a later part carries
  one: the loop goes on with the next event.
\<close>

theorem only_first_part_inspected:
  assumes "content ev = Some c" "content_parts c = Some (p # ps)"
  shows "event_verdict ev = part_verdict p \<and>
    (part_verdict p = None \<and> (\<exists>p' \<in> set ps. part_verdict p' \<noteq> None) \<longrightarrow>
       consume_events acc (Yield ev rest) =
         (fst (consume_events acc rest), ev # snd (consume_events acc rest)))"
  using assms by (auto simp: event_verdict_def split: prod.splits)

theorem only_first_part_inspected_witness:
  "content (event_of_parts [text_part ''checking'', result_part ok_result]) =
     Some \<lparr>content_parts = Some [text_part ''checking'', result_part ok_result]\<rparr> \<and>
   part_verdict (text_part ''checking'') = None \<and>
   part_verdict (result_part ok_result) = Some ok_result \<and>
   event_verdict (event_of_parts [text_part ''checking'', result_part ok_result]) = None \<and>
   consume_events default_result
     (Yield (event_of_parts [text_part ''checking'', result_part ok_result])
        (Yield (event_of_parts [result_part ok_result]) StopAsyncIteration)) =
     (Inr ok_result,
      [event_of_parts [text_part ''checking'', result_part ok_result],
       event_of_parts [result_part ok_result]])"
  using only_first_part_inspected
    [of "event_of_parts [text_part ''checking'', result_part ok_result]"
        "\<lparr>content_parts = Some [text_part ''checking'', result_part ok_result]\<rparr>"
        "text_part ''checking''" "[result_part ok_result]" default_result
        "Yield (event_of_parts [result_part ok_result]) StopAsyncIteration"]
  by (simp add: event_of_parts_def part_verdict_def text_part_def result_part_def
      response_part_def event_verdict_def)

text \<open>
  Claim C10. The payload is the data of the first part of the message when that part is
  a data part, whatever the later parts are. When the first part is of another kind, or
  its data is empty, \<open>execute\<close> calls no collaborator, and on a queue whose operations do
  not raise it replies with an error message with \<open>approved = False\<close> (the
  missing-payload error when the context id is present).
\<close>

theorem payload_only_from_first_data_part:
  assumes "message ctx = Some m" "parts m = p # ps"
  shows "agent_input_data ctx = (case p of DataPart d \<Rightarrow> Some d | _ \<Rightarrow> None) \<and>
    ((case p of DataPart d \<Rightarrow> d = [] | _ \<Rightarrow> True) \<longrightarrow>
     world_after (execute env ctx w q) = w \<and>
     (reliable q \<longrightarrow>
      execute env ctx w q =
       (None, w,
        q\<lparr>enqueued := enqueued q @
          [\<lparr>role = Agent,
            parts = [DataPart [(''approved'', JBool False),
               (''reason'', JStr
                  (if context_id ctx = None \<or> context_id ctx = Some ''''
                   then ''An internal error occurred: Context ID is missing, cannot execute.''
                   else ''An internal error occurred: Missing 'trade_proposal' or 'portfolio_state' in data payload''))]],
            msg_context_id = context_id ctx, msg_task_id = task_id ctx\<rparr>],
          closed := Suc (closed q)\<rparr>)))"
proof (intro conjI impI)
  show aid: "agent_input_data ctx = (case p of DataPart d \<Rightarrow> Some d | _ \<Rightarrow> None)"
    using assms by (simp add: agent_input_data_def)
  assume p: "case p of DataPart d \<Rightarrow> d = [] | _ \<Rightarrow> True"
  have body: "execute_try env ctx w q =
      (Inl (if context_id ctx = None \<or> context_id ctx = Some ''''
            then missing_context_error else missing_payload_error), w, q)"
  proof (cases "context_id ctx = None \<or> context_id ctx = Some ''''")
    case True
    then show ?thesis
      using execute_try_missing_context [of ctx env w q] by simp
  next
    case False
    then obtain cid where cid: "context_id ctx = Some cid" "cid \<noteq> []"
      by (cases "context_id ctx") auto
    have "case agent_input_data ctx of None \<Rightarrow> True
         | Some d \<Rightarrow> d = [] \<or> \<not> has_key ''trade_proposal'' d \<or> \<not> has_key ''portfolio_state'' d"
      using p aid by (simp split: part_root.splits)
    from execute_try_missing_payload [OF cid this, of env w q] False show ?thesis
      by auto
  qed
  show "world_after (execute env ctx w q) = w"
    by (simp add: world_after_execute body)
  assume q: "reliable q"
  have exc: "is_exception (if context_id ctx = None \<or> context_id ctx = Some ''''
            then missing_context_error else missing_payload_error)"
    by (simp add: own_errors_are_exceptions)
  from execute_caught [OF body exc q]
  show "execute env ctx w q =
       (None, w,
        q\<lparr>enqueued := enqueued q @
          [\<lparr>role = Agent,
            parts = [DataPart [(''approved'', JBool False),
               (''reason'', JStr
                  (if context_id ctx = None \<or> context_id ctx = Some ''''
                   then ''An internal error occurred: Context ID is missing, cannot execute.''
                   else ''An internal error occurred: Missing 'trade_proposal' or 'portfolio_state' in data payload''))]],
            msg_context_id = context_id ctx, msg_task_id = task_id ctx\<rparr>],
          closed := Suc (closed q)\<rparr>)"
    by (simp add: error_result_missing_context error_result_missing_payload split: if_splits)
qed

theorem payload_only_from_first_data_part_witness:
  "message text_first_request =
     Some \<lparr>role = User, parts = [TextPart ''please check'', DataPart demo_payload],
           msg_context_id = Some ''s1'', msg_task_id = Some ''t1''\<rparr> \<and>
   has_key ''trade_proposal'' demo_payload \<and> has_key ''portfolio_state'' demo_payload \<and>
   agent_input_data text_first_request = None \<and>
   reliable empty_queue \<and>
   execute demo_environment text_first_request empty_world empty_queue =
     (None, empty_world,
      \<lparr>enqueued =
         [\<lparr>role = Agent,
           parts = [DataPart [(''approved'', JBool False),
              (''reason'', JStr ''An internal error occurred: Missing 'trade_proposal' or 'portfolio_state' in data payload'')]],
           msg_context_id = Some ''s1'', msg_task_id = Some ''t1''\<rparr>],
       closed = 1, enqueue_outcomes = [], close_outcome = None\<rparr>)"
  using payload_only_from_first_data_part
    [of text_first_request
        "\<lparr>role = User, parts = [TextPart ''please check'', DataPart demo_payload],
           msg_context_id = Some ''s1'', msg_task_id = Some ''t1''\<rparr>"
        "TextPart ''please check''" "[DataPart demo_payload]"
        demo_environment empty_world empty_queue]
    demo_valid reliable_empty_queue
  by (simp add: text_first_request_def empty_queue_def)

end
